theory Spec2Isabelle
  imports Complex_Main
begin

section \<open>JavaScript values, errors and the host environment\<close>

text \<open>
  The development embeds the market-data service (\<open>services/geminiService.ts\<close>) and the
  live-price polling of \<open>App.tsx\<close>. A thrown JavaScript error is a value: every function
  that can throw returns \<open>jserror + 'a\<close>, with \<open>Inl\<close> the thrown error. An error keeps the
  two fields the code looks at, its \<open>name\<close> and its \<open>message\<close>. The message of an error
  raised by the engine itself (\<open>TypeError\<close>, \<open>SyntaxError\<close>, \<open>RangeError\<close>) is engine
  specific and is left empty.
\<close>

datatype jserror = JSError (err_name: string) (err_message: string)

abbreviation Error :: "string \<Rightarrow> jserror" where
  "Error msg \<equiv> JSError ''Error'' msg"

abbreviation TypeError :: jserror where
  "TypeError \<equiv> JSError ''TypeError'' []"

abbreviation SyntaxError :: jserror where
  "SyntaxError \<equiv> JSError ''SyntaxError'' []"

abbreviation RangeError :: jserror where
  "RangeError \<equiv> JSError ''RangeError'' []"

abbreviation AbortError :: jserror where
  "AbortError \<equiv> JSError ''AbortError'' []"

type_synonym 'a result = "jserror + 'a"

text \<open>
  The value of a JSON property that the code expects to be a price: absent
  (\<open>undefined\<close>), \<open>null\<close>, a number or a string. \<open>truthy\<close> is JavaScript's \<open>!!v\<close> on it.
\<close>

datatype jsprim = PUndefined | PNull | PNum rat | PStr string

fun truthy :: "jsprim \<Rightarrow> bool" where
  "truthy PUndefined = False"
| "truthy PNull = False"
| "truthy (PNum x) = (x \<noteq> 0)"
| "truthy (PStr s) = (s \<noteq> [])"

text \<open>
  An element read from a JSON array of numbers and nulls: \<open>arr[i]\<close> is \<open>undefined\<close> past
  the end of the array, else \<open>null\<close> or the number.
\<close>

datatype cell = Undefined | Null | Num rat

definition elem_at :: "rat option list \<Rightarrow> nat \<Rightarrow> cell" where
  "elem_at arr i = (if i < length arr then (case arr ! i of None \<Rightarrow> Null | Some x \<Rightarrow> Num x)
               else Undefined)"

text \<open>What \<open>response.json()\<close> settles to: a rejection on a malformed body, \<open>null\<close>, or an object.\<close>

datatype 'd body = Malformed | JsonNull | Json 'd

record 'd response =
  status :: nat
  body :: "'d body"

text \<open>\<open>response.ok\<close> of the Fetch API: the status is in the range 200 to 299.\<close>

definition response_ok :: "'d response \<Rightarrow> bool" where
  "response_ok r = (200 \<le> status r \<and> status r \<le> 299)"

text \<open>
  What the network does with one GET: after \<open>latency\<close> milliseconds the promise of
  \<open>fetch\<close> either rejects or resolves with a response.
\<close>

record 'd fetch_outcome =
  latency :: nat
  settles :: "jserror + 'd response"

text \<open>
  \<open>fetch(url, {signal})\<close> with \<open>setTimeout(() => controller.abort(), ms)\<close>: the abort wins
  when the promise has not settled within \<open>ms\<close> milliseconds, and \<open>fetch\<close> then rejects
  with an \<open>AbortError\<close>. A \<open>fetch\<close> without a signal just waits for the outcome.
\<close>

definition fetch_with_signal :: "'d fetch_outcome \<Rightarrow> nat \<Rightarrow> jserror + 'd response" where
  "fetch_with_signal out ms = (if latency out < ms then settles out else Inl AbortError)"

definition fetch_plain :: "'d fetch_outcome \<Rightarrow> jserror + 'd response" where
  "fetch_plain out = settles out"

text \<open>
  The effects a call leaves behind, in order: the entry into a provider function
  (\<open>Call\<close>, by the function's name) and every network request (\<open>Fetch\<close>, with its URL and
  the abort timer attached to it, if any). Console output is not recorded.
\<close>

datatype event = Call string | Fetch string "nat option"

fun is_fetch :: "event \<Rightarrow> bool" where
  "is_fetch (Fetch u t) = True"
| "is_fetch (Call f) = False"

subsection \<open>Payloads\<close>

text \<open>
  The primary source's JSON, along the paths the code reads:
  \<open>chart.error.description\<close>, \<open>chart.result[0].meta.regularMarketPrice\<close>,
  \<open>chart.result[0].timestamp\<close> and \<open>chart.result[0].indicators.quote[0].{open,...}\<close>.
  A field of option type is \<open>None\<close> when the property is absent or \<open>null\<close>.
\<close>

record yquote =
  q_open :: "rat option list option"
  q_high :: "rat option list option"
  q_low :: "rat option list option"
  q_close :: "rat option list option"
  q_volume :: "rat option list option"

record yindicators =
  quote :: "yquote list option"

record ymeta =
  regularMarketPrice :: jsprim

record yresult =
  meta :: "ymeta option"
  timestamp :: "int option list option"
  indicators :: "yindicators option"

record ychart =
  chart_error :: "string option"
  chart_result :: "yresult list option"

record ydata =
  chart :: "ychart option"

text \<open>The fallback source's candle payload \<open>{s, t, o, h, l, c, v}\<close> and quote payload \<open>{c}\<close>.\<close>

record fcandles =
  f_s :: "string option"
  f_t :: "int list option"
  f_o :: "rat option list option"
  f_h :: "rat option list option"
  f_l :: "rat option list option"
  f_c :: "rat option list option"
  f_v :: "rat option list option"

record fquote =
  fq_c :: jsprim

subsection \<open>Host functions\<close>

text \<open>
  What the browser provides and the code calls: the network behind the three endpoints,
  \<open>encodeURIComponent\<close>, \<open>Number.prototype.toFixed(2)\<close>, the conversion of a number to a
  string inside a template literal, \<open>parseFloat\<close> (\<open>None\<close> when the result is not a
  finite number), the date part of \<open>Date.prototype.toISOString\<close> for a time value in
  seconds, and the clock: \<open>Math.floor(Date.now() / 1000)\<close> and the same for the current
  date moved back by a number of days or years.
\<close>

datatype span = Days nat | Years nat

record host =
  fetch_yahoo :: "string \<Rightarrow> ydata fetch_outcome"
  fetch_candle :: "string \<Rightarrow> fcandles fetch_outcome"
  fetch_quote :: "string \<Rightarrow> fquote fetch_outcome"
  encodeURIComponent :: "string \<Rightarrow> string"
  toFixed2 :: "rat \<Rightarrow> string"
  numToString :: "rat \<Rightarrow> string"
  parseFloat :: "string \<Rightarrow> rat option"
  isoDate :: "int \<Rightarrow> string"
  now_sec :: int
  ago_sec :: "span \<Rightarrow> int"

text \<open>Decimal rendering of a natural number and of an integer (\<open>`${n}`\<close>).\<close>

fun show_nat :: "nat \<Rightarrow> string" where
  "show_nat n = (if n < 10 then [''0123456789'' ! n]
                 else show_nat (n div 10) @ [''0123456789'' ! (n mod 10)])"

declare show_nat.simps [simp del]

definition show_int :: "int \<Rightarrow> string" where
  "show_int i = (if i < 0 then ''-'' @ show_nat (nat (- i)) else show_nat (nat i))"

text \<open>
  \<open>new Date(ts * 1000).toISOString().split('T')[0]\<close>: a time value beyond
  8.64e15 milliseconds is an invalid date, on which \<open>toISOString\<close> throws a \<open>RangeError\<close>.
\<close>

definition toISODate :: "host \<Rightarrow> int \<Rightarrow> string result" where
  "toISODate h ts = (if \<bar>ts * 1000\<bar> \<le> 8640000000000000 then Inr (isoDate h ts)
                     else Inl RangeError)"

section \<open>services/geminiService.ts\<close>

definition FINNHUB_API_KEY :: string where
  "FINNHUB_API_KEY = ''d4758fhr01qh8nnb7glgd4758fhr01qh8nnb7gm0''"

text \<open>
  \<open>formatPrice\<close>: a string is parsed first; a finite number is printed with two decimals,
  anything else is \<open>N/A\<close>.
\<close>

fun formatPrice :: "host \<Rightarrow> jsprim \<Rightarrow> string" where
  "formatPrice h (PStr s) = (case parseFloat h s of Some x \<Rightarrow> toFixed2 h x | None \<Rightarrow> ''N/A'')"
| "formatPrice h (PNum x) = toFixed2 h x"
| "formatPrice h PNull = ''N/A''"
| "formatPrice h PUndefined = ''N/A''"

subsection \<open>The relay: \<open>yahooFinanceFetch\<close>\<close>

record proxy =
  prefix :: string
  encode :: bool

definition PROXIES :: "proxy list" where
  "PROXIES =
    [\<lparr>prefix = ''https://corsproxy.io/?'', encode = False\<rparr>,
     \<lparr>prefix = ''https://cors.eu.org/'', encode = False\<rparr>,
     \<lparr>prefix = ''https://thingproxy.freeboard.io/fetch/'', encode = False\<rparr>,
     \<lparr>prefix = ''https://api.allorigins.win/raw?url='', encode = True\<rparr>]"

definition fetchUrl_of :: "host \<Rightarrow> proxy \<Rightarrow> string \<Rightarrow> string" where
  "fetchUrl_of h p url =
     (if encode p then prefix p @ encodeURIComponent h url else prefix p @ url)"

text \<open>
  The body of the \<open>try\<close> block for one intermediary: the request with its 30-second abort
  timer, the status check, the parse, and the two checks of the envelope. Reading
  \<open>data.chart\<close> on a \<open>null\<close> payload is a \<open>TypeError\<close>.
\<close>

definition yahoo_attempt :: "host \<Rightarrow> proxy \<Rightarrow> string \<Rightarrow> ydata result" where
  "yahoo_attempt h p url =
     (case fetch_with_signal (fetch_yahoo h (fetchUrl_of h p url)) 30000 of
        Inl e \<Rightarrow> Inl e
      | Inr response \<Rightarrow>
          if \<not> response_ok response
          then Inl (Error (''Yahoo Finance request via '' @ prefix p @ '' failed with status ''
                           @ show_nat (status response)))
          else (case body response of
                  Malformed \<Rightarrow> Inl SyntaxError
                | JsonNull \<Rightarrow> Inl TypeError
                | Json data \<Rightarrow>
                    (case chart data of
                       None \<Rightarrow> Inl (Error (''Yahoo Finance response via '' @ prefix p
                                            @ '' was empty or malformed.''))
                     | Some ch \<Rightarrow>
                         (case chart_error ch of
                            Some description \<Rightarrow>
                              Inl (Error (''Yahoo Finance API error: '' @ description))
                          | None \<Rightarrow>
                              (case chart_result ch of
                                 None \<Rightarrow> Inl (Error (''Yahoo Finance response via '' @ prefix p
                                                      @ '' was empty or malformed.''))
                               | Some res \<Rightarrow> Inr data)))))"

text \<open>The \<open>catch\<close> block: what \<open>lastError\<close> becomes after a failed attempt.\<close>

definition caught :: "jserror \<Rightarrow> jserror" where
  "caught error =
     (if err_name error = ''AbortError''
      then Error ''Request timed out. The data provider is not responding.''
      else error)"

text \<open>
  The \<open>for\<close> loop over the intermediaries and the final \<open>throw\<close>. The result is the list
  of requests made, in order, and what the function returns or throws.
\<close>

fun relay_loop :: "host \<Rightarrow> string \<Rightarrow> proxy list \<Rightarrow> jserror option
                   \<Rightarrow> event list \<times> ydata result" where
  "relay_loop h url [] lastError =
     ([], Inl (case lastError of
                 Some e \<Rightarrow> e
               | None \<Rightarrow> Error ''All Yahoo Finance fetch attempts failed.''))"
| "relay_loop h url (p # ps) lastError =
     (case yahoo_attempt h p url of
        Inr data \<Rightarrow> ([Fetch (fetchUrl_of h p url) (Some 30000)], Inr data)
      | Inl error \<Rightarrow>
          (case relay_loop h url ps (Some (caught error)) of
             (evs, r) \<Rightarrow> (Fetch (fetchUrl_of h p url) (Some 30000) # evs, r)))"

definition yahooFinanceFetch :: "host \<Rightarrow> string \<Rightarrow> event list \<times> ydata result" where
  "yahooFinanceFetch h url = relay_loop h url PROXIES None"

subsection \<open>The fallback source (Finnhub)\<close>

text \<open>
  \<open>mapSymbolForFinnhub\<close>: the fixed substitution table; a symbol outside the table is
  returned unchanged. (The properties every JavaScript object inherits, which a symbol
  such as \<open>constructor\<close> would find in the table object, are left out.)
\<close>

definition mappings :: "(string \<times> string) list" where
  "mappings =
    [(''^GSPC'', ''SPY''), (''^DJI'', ''DIA''), (''^NDX'', ''QQQ''), (''^FTSE'', ''EWU''),
     (''^GDAXI'', ''EWG''), (''^N225'', ''EWJ''), (''^HSI'', ''EWH''), (''^NSEI'', ''INDA''),
     (''GC=F'', ''GLD''), (''SI=F'', ''SLV''), (''CL=F'', ''USO''), (''NG=F'', ''UNG''),
     (''HG=F'', ''CPER'')]"

definition mapSymbolForFinnhub :: "string \<Rightarrow> string" where
  "mapSymbolForFinnhub symbol =
     (case map_of mappings symbol of Some m \<Rightarrow> m | None \<Rightarrow> symbol)"

text \<open>\<open>String.prototype.endsWith\<close>.\<close>

definition endsWith :: "string \<Rightarrow> string \<Rightarrow> bool" where
  "endsWith s suf = (length suf \<le> length s \<and> drop (length s - length suf) s = suf)"

text \<open>The chart data (\<open>types.ts\<close>) and the payload both providers return.\<close>

record CandlestickData =
  c_time :: int
  c_open :: rat
  c_high :: rat
  c_low :: rat
  c_close :: rat

record VolumeData =
  v_time :: int
  v_value :: rat
  v_color :: string

record ChartData =
  candlestickData :: "CandlestickData list"
  volumeData :: "VolumeData list"

record MarketDataPayload =
  csv :: string
  chartData :: ChartData

definition header :: string where
  "header = ''Date,Open,High,Low,Close,Volume'' @ [CHR 0x0A]"

text \<open>\<open>rows.join('\n')\<close>.\<close>

fun join_lines :: "string list \<Rightarrow> string" where
  "join_lines [] = []"
| "join_lines [r] = r"
| "join_lines (r # r' # rs) = r @ [CHR 0x0A] @ join_lines (r' # rs)"

text \<open>
  One bar, as the callback of \<open>map\<close> leaves it when it does not throw: the candle and the
  volume point it pushes and the text row it returns.
\<close>

record bar =
  bar_candle :: CandlestickData
  bar_volume :: VolumeData
  bar_row :: string

text \<open>
  \<open>Array.prototype.map\<close> with the index, for a callback that may throw: the first
  throw ends the loop, and (the arrays being local) nothing of the rows built so far
  is seen by the caller.
\<close>

fun map_indexed :: "('a \<Rightarrow> nat \<Rightarrow> 'r result) \<Rightarrow> 'a list \<Rightarrow> nat \<Rightarrow> 'r list result" where
  "map_indexed f [] i = Inr []"
| "map_indexed f (x # xs) i =
     (case f x i of
        Inl e \<Rightarrow> Inl e
      | Inr r \<Rightarrow> (case map_indexed f xs (Suc i) of Inl e \<Rightarrow> Inl e | Inr rs \<Rightarrow> Inr (r # rs)))"

text \<open>
  A price read for a candle and printed with \<open>toFixed(2)\<close>: the call returns only when
  the element is a number, since \<open>toFixed\<close> on \<open>null\<close> or \<open>undefined\<close> is a \<open>TypeError\<close>.
\<close>

fun cell_num :: "cell \<Rightarrow> rat result" where
  "cell_num (Num x) = Inr x"
| "cell_num Null = Inl TypeError"
| "cell_num Undefined = Inl TypeError"

definition up_color :: string where
  "up_color = ''rgba(40, 167, 69, 0.5)''"

definition down_color :: string where
  "down_color = ''rgba(220, 53, 69, 0.5)''"

text \<open>\<open>volume[i] ?? 0\<close> for the chart and \<open>volume[i] ?? '0'\<close> for the text row.\<close>

fun volume_or_zero :: "cell \<Rightarrow> rat" where
  "volume_or_zero (Num x) = x"
| "volume_or_zero Null = 0"
| "volume_or_zero Undefined = 0"

fun volume_text :: "host \<Rightarrow> cell \<Rightarrow> string" where
  "volume_text h (Num x) = numToString h x"
| "volume_text h Null = ''0''"
| "volume_text h Undefined = ''0''"

definition make_bar :: "host \<Rightarrow> int \<Rightarrow> string \<Rightarrow> rat \<Rightarrow> rat \<Rightarrow> rat \<Rightarrow> rat \<Rightarrow> cell \<Rightarrow> bar" where
  "make_bar h ts date o' h' l' c' v =
     \<lparr>bar_candle = \<lparr>c_time = ts, c_open = o', c_high = h', c_low = l', c_close = c'\<rparr>,
      bar_volume = \<lparr>v_time = ts, v_value = volume_or_zero v,
                    v_color = (if c' \<ge> o' then up_color else down_color)\<rparr>,
      bar_row = date @ '','' @ toFixed2 h o' @ '','' @ toFixed2 h h' @ '','' @ toFixed2 h l'
                @ '','' @ toFixed2 h c' @ '','' @ volume_text h v\<rparr>"

text \<open>
  The callback of \<open>t.map\<close> in \<open>fetchMarketDataFromFinnhub\<close>. Indexing an absent array
  (\<open>o[i]\<close> with \<open>o\<close> undefined) is a \<open>TypeError\<close>.
\<close>

definition finnhub_row :: "host \<Rightarrow> fcandles \<Rightarrow> int \<Rightarrow> nat \<Rightarrow> bar result" where
  "finnhub_row h data ts i =
     (case toISODate h ts of
        Inl e \<Rightarrow> Inl e
      | Inr date \<Rightarrow>
     (case f_o data of None \<Rightarrow> Inl TypeError | Some os \<Rightarrow>
     (case f_h data of None \<Rightarrow> Inl TypeError | Some hs \<Rightarrow>
     (case f_l data of None \<Rightarrow> Inl TypeError | Some ls \<Rightarrow>
     (case f_c data of None \<Rightarrow> Inl TypeError | Some cs \<Rightarrow>
     (case f_v data of None \<Rightarrow> Inl TypeError | Some vs \<Rightarrow>
     (case cell_num (elem_at os i) of Inl e \<Rightarrow> Inl e | Inr o' \<Rightarrow>
     (case cell_num (elem_at hs i) of Inl e \<Rightarrow> Inl e | Inr h' \<Rightarrow>
     (case cell_num (elem_at ls i) of Inl e \<Rightarrow> Inl e | Inr l' \<Rightarrow>
     (case cell_num (elem_at cs i) of Inl e \<Rightarrow> Inl e | Inr c' \<Rightarrow>
        Inr (make_bar h ts date o' h' l' c' (elem_at vs i))))))))))))"

definition payload_of :: "bar list \<Rightarrow> MarketDataPayload" where
  "payload_of bars =
     \<lparr>csv = header @ join_lines (map bar_row bars),
      chartData = \<lparr>candlestickData = map bar_candle bars,
                   volumeData = map bar_volume bars\<rparr>\<rparr>"

definition finnhub_resolution :: "host \<Rightarrow> string \<Rightarrow> string \<times> int" where
  "finnhub_resolution h timeframe =
     (if timeframe = ''Intraday'' then (''15'', ago_sec h (Days 5))
      else if timeframe = ''Weekly'' then (''W'', ago_sec h (Years 5))
      else if timeframe = ''Monthly'' then (''M'', ago_sec h (Years 20))
      else (''D'', ago_sec h (Years 2)))"

definition finnhub_candle_url :: "string \<Rightarrow> host \<Rightarrow> string \<Rightarrow> string \<Rightarrow> string" where
  "finnhub_candle_url key h symbol timeframe =
     (case finnhub_resolution h timeframe of
        (resolution, from) \<Rightarrow>
          ''https://finnhub.io/api/v1/stock/candle?symbol='' @ mapSymbolForFinnhub symbol
          @ ''&resolution='' @ resolution @ ''&from='' @ show_int from
          @ ''&to='' @ show_int (now_sec h) @ ''&token='' @ key)"

text \<open>What follows \<open>await response.json()\<close> in \<open>fetchMarketDataFromFinnhub\<close>.\<close>

definition finnhub_series :: "host \<Rightarrow> string \<Rightarrow> fcandles \<Rightarrow> MarketDataPayload result" where
  "finnhub_series h symbol data =
     (case f_t data of
        None \<Rightarrow> Inl (Error (''Could not find time series data for '' @ [CHR 0x27]
                            @ mapSymbolForFinnhub symbol @ [CHR 0x27] @ '' in Finnhub response.''))
      | Some t \<Rightarrow>
          if f_s data = Some ''no_data'' \<or> length t = 0
          then Inl (Error (''Could not find time series data for '' @ [CHR 0x27]
                           @ mapSymbolForFinnhub symbol @ [CHR 0x27] @ '' in Finnhub response.''))
          else (case map_indexed (finnhub_row h data) t 0 of
                  Inl e \<Rightarrow> Inl e
                | Inr bars \<Rightarrow> Inr (payload_of bars)))"

text \<open>
  \<open>fetchMarketDataFromFinnhub\<close>, with the credential as a parameter (the source holds it
  in the constant \<open>FINNHUB_API_KEY\<close>). The request carries no abort signal.
\<close>

definition fetchMarketDataFromFinnhub ::
    "string \<Rightarrow> host \<Rightarrow> string \<Rightarrow> string \<Rightarrow> event list \<times> MarketDataPayload result" where
  "fetchMarketDataFromFinnhub key h symbol timeframe =
     (if key = [] then
        ([Call ''fetchMarketDataFromFinnhub''],
         Inl (Error ''FINNHUB_API_KEY environment variable not set. Cannot use Finnhub as a fallback.''))
      else if endsWith symbol ''.NS'' then
        ([Call ''fetchMarketDataFromFinnhub''],
         Inl (Error ''Primary data source failed for Indian stock; Finnhub fallback is not supported for this asset on the current plan.''))
      else
        ([Call ''fetchMarketDataFromFinnhub'',
          Fetch (finnhub_candle_url key h symbol timeframe) None],
         (case fetch_plain (fetch_candle h (finnhub_candle_url key h symbol timeframe)) of
            Inl e \<Rightarrow> Inl e
          | Inr response \<Rightarrow>
              if \<not> response_ok response
              then Inl (Error (''Finnhub request for '' @ mapSymbolForFinnhub symbol
                               @ '' failed with status '' @ show_nat (status response)))
              else (case body response of
                      Malformed \<Rightarrow> Inl SyntaxError
                    | JsonNull \<Rightarrow> Inl TypeError
                    | Json data \<Rightarrow> finnhub_series h symbol data))))"

definition finnhub_quote_url :: "string \<Rightarrow> string \<Rightarrow> string" where
  "finnhub_quote_url key symbol =
     ''https://finnhub.io/api/v1/quote?symbol='' @ mapSymbolForFinnhub symbol
     @ ''&token='' @ key"

text \<open>
  \<open>fetchLivePriceFromFinnhub\<close>: \<open>null\<close> (here \<open>None\<close>) without a request when the credential
  is missing or the symbol ends in \<open>.NS\<close>. \<open>data?.c\<close> on a \<open>null\<close> payload is \<open>undefined\<close>.
\<close>

definition fetchLivePriceFromFinnhub ::
    "string \<Rightarrow> host \<Rightarrow> string \<Rightarrow> event list \<times> string option result" where
  "fetchLivePriceFromFinnhub key h symbol =
     (if key = [] then ([Call ''fetchLivePriceFromFinnhub''], Inr None)
      else if endsWith symbol ''.NS'' then ([Call ''fetchLivePriceFromFinnhub''], Inr None)
      else
        ([Call ''fetchLivePriceFromFinnhub'', Fetch (finnhub_quote_url key symbol) None],
         (case fetch_plain (fetch_quote h (finnhub_quote_url key symbol)) of
            Inl e \<Rightarrow> Inl e
          | Inr response \<Rightarrow>
              if \<not> response_ok response
              then Inl (Error (''Finnhub quote request failed with status ''
                               @ show_nat (status response)))
              else (case body response of
                      Malformed \<Rightarrow> Inl SyntaxError
                    | other \<Rightarrow>
                        (let price = (case other of Json data \<Rightarrow> fq_c data | _ \<Rightarrow> PUndefined)
                         in if \<not> truthy price \<or> price = PNum 0
                            then Inl (Error (''No live price found for '' @ symbol
                                             @ '' in Finnhub response.''))
                            else Inr (Some (formatPrice h price)))))))"

subsection \<open>The primary source (Yahoo Finance)\<close>

text \<open>\<open>data?.chart?.result?.[0]\<close>: \<open>None\<close> is \<open>undefined\<close>.\<close>

definition first_result :: "ydata \<Rightarrow> yresult option" where
  "first_result data =
     (case chart data of
        None \<Rightarrow> None
      | Some ch \<Rightarrow> (case chart_result ch of
                     None \<Rightarrow> None
                   | Some [] \<Rightarrow> None
                   | Some (r # rs) \<Rightarrow> Some r))"

definition yahoo_quote_url :: "host \<Rightarrow> string \<Rightarrow> string" where
  "yahoo_quote_url h symbol =
     ''https://query1.finance.yahoo.com/v8/finance/chart/'' @ encodeURIComponent h symbol
     @ ''?range=1d&interval=1m''"

text \<open>\<open>data?.chart?.result?.[0]?.meta?.regularMarketPrice\<close>.\<close>

definition yahoo_price :: "ydata \<Rightarrow> jsprim" where
  "yahoo_price data =
     (case first_result data of
        None \<Rightarrow> PUndefined
      | Some r \<Rightarrow> (case meta r of None \<Rightarrow> PUndefined | Some m \<Rightarrow> regularMarketPrice m))"

definition fetchLivePriceFromYahoo :: "host \<Rightarrow> string \<Rightarrow> event list \<times> string option result" where
  "fetchLivePriceFromYahoo h symbol =
     (case yahooFinanceFetch h (yahoo_quote_url h symbol) of
        (evs, Inl e) \<Rightarrow> (Call ''fetchLivePriceFromYahoo'' # evs, Inl e)
      | (evs, Inr data) \<Rightarrow>
          (Call ''fetchLivePriceFromYahoo'' # evs,
           if \<not> truthy (yahoo_price data)
           then Inl (Error (''No live price found for '' @ symbol
                            @ '' in Yahoo Finance response.''))
           else Inr (Some (formatPrice h (yahoo_price data)))))"

text \<open>
  \<open>fetchLivePrice\<close>: an empty symbol is \<open>null\<close> at once; the two \<open>catch\<close> blocks turn a
  throw of the primary source into a call of the fallback, and a throw of the fallback
  into \<open>null\<close>.
\<close>

definition fetchLivePrice :: "string \<Rightarrow> host \<Rightarrow> string \<Rightarrow> event list \<times> string option result" where
  "fetchLivePrice key h symbol =
     (if symbol = [] then ([], Inr None)
      else (case fetchLivePriceFromYahoo h symbol of
              (evs, Inr price) \<Rightarrow> (evs, Inr price)
            | (evs, Inl yahooError) \<Rightarrow>
                (case fetchLivePriceFromFinnhub key h symbol of
                   (evs', Inr price) \<Rightarrow> (evs @ evs', Inr price)
                 | (evs', Inl finnhubError) \<Rightarrow> (evs @ evs', Inr None))))"

definition yahoo_range :: "string \<Rightarrow> string \<times> string" where
  "yahoo_range timeframe =
     (if timeframe = ''Intraday'' then (''5d'', ''15m'')
      else if timeframe = ''Weekly'' then (''5y'', ''1wk'')
      else if timeframe = ''Monthly'' then (''max'', ''1mo'')
      else (''2y'', ''1d''))"

definition yahoo_chart_url :: "host \<Rightarrow> string \<Rightarrow> string \<Rightarrow> string" where
  "yahoo_chart_url h symbol timeframe =
     (case yahoo_range timeframe of
        (range', interval) \<Rightarrow>
          ''https://query1.finance.yahoo.com/v8/finance/chart/'' @ encodeURIComponent h symbol
          @ ''?range='' @ range' @ ''&interval='' @ interval)"

text \<open>
  The callback of \<open>timestamp.map\<close> in \<open>fetchMarketDataFromYahoo\<close>; \<open>None\<close> is the \<open>null\<close>
  it returns for a skipped row. The checks \<open>ts === null || open[i] === null || ...\<close> are
  made in this order and stop at the first that holds, so an absent \<open>high\<close> array is
  only indexed (a \<open>TypeError\<close>) when the timestamp and \<open>open[i]\<close> are not \<open>null\<close>. The
  array \<open>open\<close> is known to be there (the caller has checked it).
\<close>

definition yahoo_row :: "host \<Rightarrow> rat option list \<Rightarrow> yquote \<Rightarrow> int option \<Rightarrow> nat
                         \<Rightarrow> bar option result" where
  "yahoo_row h opens q ts' i =
     (case ts' of
        None \<Rightarrow> Inr None
      | Some ts \<Rightarrow>
     (if elem_at opens i = Null then Inr None else
     (case q_high q of None \<Rightarrow> Inl TypeError | Some highs \<Rightarrow>
     (if elem_at highs i = Null then Inr None else
     (case q_low q of None \<Rightarrow> Inl TypeError | Some lows \<Rightarrow>
     (if elem_at lows i = Null then Inr None else
     (case q_close q of None \<Rightarrow> Inl TypeError | Some closes \<Rightarrow>
     (if elem_at closes i = Null then Inr None else
     (case q_volume q of None \<Rightarrow> Inl TypeError | Some volumes \<Rightarrow>
     (case toISODate h ts of Inl e \<Rightarrow> Inl e | Inr date \<Rightarrow>
     (case cell_num (elem_at opens i) of Inl e \<Rightarrow> Inl e | Inr o' \<Rightarrow>
     (case cell_num (elem_at highs i) of Inl e \<Rightarrow> Inl e | Inr h' \<Rightarrow>
     (case cell_num (elem_at lows i) of Inl e \<Rightarrow> Inl e | Inr l' \<Rightarrow>
     (case cell_num (elem_at closes i) of Inl e \<Rightarrow> Inl e | Inr c' \<Rightarrow>
        Inr (Some (make_bar h ts date o' h' l' c' (elem_at volumes i)))))))))))))))))"

text \<open>\<open>.filter(Boolean)\<close> on the rows, and the bars that were pushed: the rows not skipped.\<close>

fun kept :: "'a option list \<Rightarrow> 'a list" where
  "kept [] = []"
| "kept (None # rs) = kept rs"
| "kept (Some r # rs) = r # kept rs"

text \<open>What follows \<open>await yahooFinanceFetch(url)\<close> in \<open>fetchMarketDataFromYahoo\<close>.\<close>

definition yahoo_series :: "host \<Rightarrow> ydata \<Rightarrow> MarketDataPayload result" where
  "yahoo_series h data =
     (case first_result data of
        None \<Rightarrow> Inl (Error ''Could not find time series data in Yahoo Finance response.'')
      | Some result \<Rightarrow>
     (case timestamp result of
        None \<Rightarrow> Inl (Error ''Could not find time series data in Yahoo Finance response.'')
      | Some timestamps \<Rightarrow>
     (case indicators result of None \<Rightarrow> Inl TypeError | Some ind \<Rightarrow>
     (case quote ind of None \<Rightarrow> Inl TypeError | Some [] \<Rightarrow> Inl TypeError | Some (q # qs) \<Rightarrow>
     (case q_open q of
        None \<Rightarrow> Inl (Error ''Could not find time series data in Yahoo Finance response.'')
      | Some opens \<Rightarrow>
     (case map_indexed (yahoo_row h opens q) timestamps 0 of
        Inl e \<Rightarrow> Inl e
      | Inr rows \<Rightarrow> Inr (payload_of (kept rows))))))))"

definition fetchMarketDataFromYahoo ::
    "host \<Rightarrow> string \<Rightarrow> string \<Rightarrow> event list \<times> MarketDataPayload result" where
  "fetchMarketDataFromYahoo h symbol timeframe =
     (case yahooFinanceFetch h (yahoo_chart_url h symbol timeframe) of
        (evs, Inl e) \<Rightarrow> (Call ''fetchMarketDataFromYahoo'' # evs, Inl e)
      | (evs, Inr data) \<Rightarrow> (Call ''fetchMarketDataFromYahoo'' # evs, yahoo_series h data))"

subsection \<open>The orchestrator \<open>fetchMarketData\<close>\<close>

definition fallback_unavailable :: "string \<Rightarrow> jserror" where
  "fallback_unavailable symbol =
     Error (''Failed to fetch market data for '' @ [CHR 0x27] @ symbol @ [CHR 0x27]
            @ ''. The symbol may be invalid or not supported by the data provider.'')"

definition all_providers_failed :: "string \<Rightarrow> jserror" where
  "all_providers_failed symbol =
     Error (''Failed to fetch market data for '' @ [CHR 0x27] @ symbol @ [CHR 0x27]
            @ '' from all providers. The symbol may be invalid or providers are down.'')"

definition fetchMarketData ::
    "string \<Rightarrow> host \<Rightarrow> string \<Rightarrow> string \<Rightarrow> event list \<times> MarketDataPayload result" where
  "fetchMarketData key h symbol timeframe =
     (case fetchMarketDataFromYahoo h symbol timeframe of
        (evs, Inr payload) \<Rightarrow> (evs, Inr payload)
      | (evs, Inl yahooError) \<Rightarrow>
          if key = [] then (evs, Inl (fallback_unavailable symbol))
          else (case fetchMarketDataFromFinnhub key h symbol timeframe of
                  (evs', Inr payload) \<Rightarrow> (evs @ evs', Inr payload)
                | (evs', Inl finnhubError) \<Rightarrow> (evs @ evs', Inl (all_providers_failed symbol))))"

section \<open>App.tsx: live-price polling\<close>

text \<open>
  The part of the component's state the polling touches: the two refs
  (\<open>priceUpdateInterval\<close>, \<open>pollingFailureCount\<close>), the two pieces of React state
  (\<open>livePrice\<close>, \<open>isPollingHalted\<close>), and around them the browser: its interval timers
  that are registered (the identifier and the symbol the timer's callback polls), the
  number of timers created so far (\<open>setInterval\<close> returns a fresh positive identifier),
  and the callbacks that have called \<open>fetchLivePrice\<close> and wait for it, oldest first.
  \<open>halts\<close> counts the calls of \<open>setIsPollingHalted(true)\<close>.
\<close>

record app =
  priceUpdateInterval :: "nat option"
  pollingFailureCount :: nat
  livePrice :: "string option"
  isPollingHalted :: bool
  timers :: "(nat \<times> string) list"
  timers_created :: nat
  pending :: "string list"
  halts :: nat

definition App_init :: app where
  "App_init =
     \<lparr>priceUpdateInterval = None, pollingFailureCount = 0, livePrice = None,
      isPollingHalted = False, timers = [], timers_created = 0, pending = [], halts = 0\<rparr>"

text \<open>\<open>clearInterval(id)\<close>.\<close>

definition clearInterval :: "nat \<Rightarrow> (nat \<times> string) list \<Rightarrow> (nat \<times> string) list" where
  "clearInterval ident ts = filter (\<lambda>t. fst t \<noteq> ident) ts"

text \<open>\<open>stopPolling(halted)\<close>; the guard \<open>if (priceUpdateInterval.current)\<close> is false on \<open>null\<close> and on 0.\<close>

definition stopPolling :: "bool \<Rightarrow> app \<Rightarrow> app" where
  "stopPolling halted s =
     (case priceUpdateInterval s of
        None \<Rightarrow> s
      | Some ident \<Rightarrow>
          if ident = 0 then s
          else s\<lparr>timers := clearInterval ident (timers s),
                 priceUpdateInterval := None,
                 pollingFailureCount := 0,
                 isPollingHalted := (if halted then True else isPollingHalted s),
                 halts := (if halted then halts s + 1 else halts s)\<rparr>)"

text \<open>
  \<open>handleAnalysisRequest\<close> up to its \<open>await\<close>: \<open>setLivePrice(null)\<close>,
  \<open>setIsPollingHalted(false)\<close>, \<open>stopPolling()\<close>.
\<close>

definition handleAnalysisRequest_begin :: "app \<Rightarrow> app" where
  "handleAnalysisRequest_begin s = stopPolling False (s\<lparr>livePrice := None, isPollingHalted := False\<rparr>)"

text \<open>
  \<open>handleAnalysisRequest\<close> after the \<open>await\<close>: \<open>assetSymbol\<close> is the report's symbol,
  \<open>None\<close> when the analysis threw or the report carries none. A non-empty symbol
  registers the interval timer and stores its identifier.
\<close>

definition handleAnalysisRequest_resume :: "string option \<Rightarrow> app \<Rightarrow> app" where
  "handleAnalysisRequest_resume assetSymbol s =
     (case assetSymbol of
        None \<Rightarrow> s
      | Some symbol \<Rightarrow>
          if symbol = [] then s
          else s\<lparr>priceUpdateInterval := Some (Suc (timers_created s)),
                 timers := timers s @ [(Suc (timers_created s), symbol)],
                 timers_created := Suc (timers_created s)\<rparr>)"

text \<open>
  The timer callback, in its two halves. \<open>timer_fires\<close>: a registered timer fires and its
  callback calls \<open>fetchLivePrice\<close>; the code makes this call whatever else is outstanding.
  \<open>on_quote\<close>: the code after the \<open>await\<close>, given the price (\<open>if (newPrice)\<close> holds for a
  non-empty string).
\<close>

definition timer_fires :: "nat \<Rightarrow> app \<Rightarrow> app" where
  "timer_fires ident s =
     (case map_of (timers s) ident of
        None \<Rightarrow> s
      | Some symbol \<Rightarrow> s\<lparr>pending := pending s @ [symbol]\<rparr>)"

definition on_quote :: "string option \<Rightarrow> app \<Rightarrow> app" where
  "on_quote newPrice s =
     (if newPrice \<noteq> None \<and> newPrice \<noteq> Some []
      then s\<lparr>livePrice := newPrice, pollingFailureCount := 0\<rparr>
      else (let s' = s\<lparr>pollingFailureCount := pollingFailureCount s + 1\<rparr>
            in if pollingFailureCount s' \<ge> 5 then stopPolling True s' else s'))"

text \<open>
  The oldest outstanding call of \<open>fetchLivePrice\<close> settles, having seen the network \<open>h\<close>,
  and its callback goes on. Had \<open>fetchLivePrice\<close> thrown, the callback would end there.
\<close>

definition quote_settles :: "string \<Rightarrow> host \<Rightarrow> app \<Rightarrow> app" where
  "quote_settles key h s =
     (case pending s of
        [] \<Rightarrow> s
      | symbol # rest \<Rightarrow>
          (case snd (fetchLivePrice key h symbol) of
             Inl e \<Rightarrow> s\<lparr>pending := rest\<rparr>
           | Inr newPrice \<Rightarrow> on_quote newPrice (s\<lparr>pending := rest\<rparr>)))"

datatype app_event = Fires nat | Settles host

fun app_step :: "string \<Rightarrow> app_event \<Rightarrow> app \<Rightarrow> app" where
  "app_step key (Fires ident) s = timer_fires ident s"
| "app_step key (Settles h) s = quote_settles key h s"

fun app_run :: "string \<Rightarrow> app_event list \<Rightarrow> app \<Rightarrow> app" where
  "app_run key [] s = s"
| "app_run key (ev # evs) s = app_run key evs (app_step key ev s)"

text \<open>
  One tick whose request settles before anything else happens: the registered timer
  fires (no timer, no tick) and its quote arrives from the network \<open>h\<close>. \<open>poll\<close> is a
  sequence of such ticks, one network per tick.
\<close>

definition tick :: "string \<Rightarrow> host \<Rightarrow> app \<Rightarrow> app" where
  "tick key h s =
     (case timers s of
        [] \<Rightarrow> s
      | (ident, symbol) # ts \<Rightarrow> quote_settles key h (timer_fires ident s))"

fun poll :: "string \<Rightarrow> host list \<Rightarrow> app \<Rightarrow> app" where
  "poll key [] s = s"
| "poll key (h # hs) s = poll key hs (tick key h s)"

text \<open>The quote a tick obtains for \<open>symbol\<close> from the network \<open>h\<close> is a price.\<close>

definition quote_ok :: "string \<Rightarrow> host \<Rightarrow> string \<Rightarrow> bool" where
  "quote_ok key h symbol =
     (case snd (fetchLivePrice key h symbol) of
        Inr (Some price) \<Rightarrow> price \<noteq> []
      | _ \<Rightarrow> False)"

text \<open>
  A session that polls \<open>symbol\<close> and is at rest between two ticks: one timer, the one the
  ref names, nothing outstanding and fewer than five failures counted.
\<close>

definition polling :: "string \<Rightarrow> app \<Rightarrow> bool" where
  "polling symbol s =
     (case priceUpdateInterval s of
        None \<Rightarrow> False
      | Some ident \<Rightarrow> ident \<noteq> 0 \<and> timers s = [(ident, symbol)] \<and> pending s = []
                      \<and> pollingFailureCount s < 5)"

text \<open>A session that has stopped: no timer, no ref, nothing outstanding.\<close>

definition stopped :: "app \<Rightarrow> bool" where
  "stopped s = (priceUpdateInterval s = None \<and> timers s = [] \<and> pending s = [])"

section \<open>Notions used to state the properties\<close>

text \<open>
  The lines of a text, split at the line feed, and the data rows of a CSV text: the
  non-empty lines after the first.
\<close>

fun split_lines :: "string \<Rightarrow> string list" where
  "split_lines [] = [[]]"
| "split_lines (c # cs) =
     (if c = CHR 0x0A then [] # split_lines cs
      else (case split_lines cs of l # ls \<Rightarrow> (c # l) # ls | [] \<Rightarrow> [[c]]))"

definition data_rows :: "string \<Rightarrow> string list" where
  "data_rows text = filter (\<lambda>l. l \<noteq> []) (tl (split_lines text))"

text \<open>The host's formatting functions never produce a line feed.\<close>

definition single_line_host :: "host \<Rightarrow> bool" where
  "single_line_host h =
     ((\<forall>x. CHR 0x0A \<notin> set (toFixed2 h x)) \<and> (\<forall>x. CHR 0x0A \<notin> set (numToString h x))
      \<and> (\<forall>ts. CHR 0x0A \<notin> set (isoDate h ts)))"

text \<open>A time value in seconds that \<open>Date\<close> can represent.\<close>

definition valid_time :: "int \<Rightarrow> bool" where
  "valid_time ts = (\<bar>ts * 1000\<bar> \<le> 8640000000000000)"

text \<open>
  Index \<open>i\<close> of the primary source's parallel arrays is complete: the timestamp and the
  four prices are not \<open>null\<close>.
\<close>

definition complete :: "int option list \<Rightarrow> rat option list \<Rightarrow> rat option list \<Rightarrow> rat option list
                        \<Rightarrow> rat option list \<Rightarrow> nat \<Rightarrow> bool" where
  "complete ts os hs ls cs i =
     (ts ! i \<noteq> None \<and> os ! i \<noteq> None \<and> hs ! i \<noteq> None \<and> ls ! i \<noteq> None \<and> cs ! i \<noteq> None)"

text \<open>The complete indices of the parallel arrays, in ascending order.\<close>

definition complete_indices :: "int option list \<Rightarrow> rat option list \<Rightarrow> rat option list
                                \<Rightarrow> rat option list \<Rightarrow> rat option list \<Rightarrow> nat list" where
  "complete_indices ts os hs ls cs = filter (complete ts os hs ls cs) [0..<length ts]"

text \<open>The bar that index \<open>i\<close> of the parallel arrays stands for.\<close>

definition bar_at :: "host \<Rightarrow> int option list \<Rightarrow> rat option list \<Rightarrow> rat option list \<Rightarrow> rat option list
                      \<Rightarrow> rat option list \<Rightarrow> rat option list \<Rightarrow> nat \<Rightarrow> bar" where
  "bar_at h ts os hs ls cs vs i =
     make_bar h (the (ts ! i)) (isoDate h (the (ts ! i))) (the (os ! i)) (the (hs ! i))
              (the (ls ! i)) (the (cs ! i)) (elem_at vs i)"

text \<open>
  The upstream data is ascending: in every payload the network delivers, the timestamps
  (those that are not \<open>null\<close>) increase strictly.
\<close>

definition ascending_upstream :: "host \<Rightarrow> bool" where
  "ascending_upstream h =
     ((\<forall>url response data result ts.
         settles (fetch_yahoo h url) = Inr response \<and> body response = Json data
         \<and> first_result data = Some result \<and> timestamp result = Some ts
         \<longrightarrow> sorted_wrt (<) (kept ts))
      \<and> (\<forall>url response data t.
         settles (fetch_candle h url) = Inr response \<and> body response = Json data
         \<and> f_t data = Some t
         \<longrightarrow> sorted_wrt (<) t))"

text \<open>How often a provider function was entered, and the requests among the events.\<close>

definition calls :: "string \<Rightarrow> event list \<Rightarrow> nat" where
  "calls f evs = length (filter (\<lambda>ev. ev = Call f) evs)"

definition requests :: "event list \<Rightarrow> event list" where
  "requests evs = filter is_fetch evs"

subsection \<open>Example hosts\<close>

text \<open>
  A host whose network answers nothing: every request is still open after 30 seconds and
  then fails. Its formatting functions round to two decimals, print whole numbers, and
  percent-encode what \<open>encodeURIComponent\<close> does not leave alone.
\<close>

definition unreachable :: "string \<Rightarrow> 'd fetch_outcome" where
  "unreachable url = \<lparr>latency = 30000, settles = Inl (JSError ''TypeError'' ''Failed to fetch'')\<rparr>"

definition example_toFixed2 :: "rat \<Rightarrow> string" where
  "example_toFixed2 x =
     (let n = nat \<lfloor>\<bar>x\<bar> * 100 + 1 / 2\<rfloor>
      in (if x < 0 then ''-'' else []) @ show_nat (n div 100) @ ''.''
         @ show_nat (n div 10 mod 10) @ show_nat (n mod 10))"

definition example_encode :: "string \<Rightarrow> string" where
  "example_encode s =
     concat (map (\<lambda>c. if c \<in> set ''ABCDEFGHIJKLMNOPQRSTUVWXYZabcdefghijklmnopqrstuvwxyz0123456789-_.!~*()''
                       then [c]
                       else [CHR ''%'', ''0123456789ABCDEF'' ! (of_char c div 16),
                             ''0123456789ABCDEF'' ! (of_char c mod 16)]) s)"

definition example_host :: host where
  "example_host =
     \<lparr>fetch_yahoo = unreachable,
      fetch_candle = unreachable,
      fetch_quote = unreachable,
      encodeURIComponent = example_encode,
      toFixed2 = example_toFixed2,
      numToString = (\<lambda>x. show_int \<lfloor>x\<rfloor>),
      parseFloat = (\<lambda>s. None),
      isoDate = (\<lambda>ts. ''day '' @ show_int (ts div 86400)),
      now_sec = 1700000000,
      ago_sec = (\<lambda>sp. case sp of Days n \<Rightarrow> 1700000000 - 86400 * int n
                              | Years n \<Rightarrow> 1700000000 - 31536000 * int n)\<rparr>"

text \<open>
  A payload of the primary source with four rows, the third with a \<open>null\<close> close and
  the second with a \<open>null\<close> volume.
\<close>

definition example_yquote :: yquote where
  "example_yquote =
     \<lparr>q_open = Some [Some 100, Some 101, Some 102, Some 103],
      q_high = Some [Some 101, Some 102, Some 103, Some 104],
      q_low = Some [Some 99, Some 100, Some 101, Some 102],
      q_close = Some [Some (201 / 2), Some (201 / 2), None, Some (207 / 2)],
      q_volume = Some [Some 1000, None, Some 3000, Some 4000]\<rparr>"

definition example_yresult :: yresult where
  "example_yresult =
     \<lparr>meta = Some \<lparr>regularMarketPrice = PNum (207 / 2)\<rparr>,
      timestamp = Some [Some 1699886400, Some 1699972800, Some 1700059200, Some 1700145600],
      indicators = Some \<lparr>quote = Some [example_yquote]\<rparr>\<rparr>"

definition example_ydata :: ydata where
  "example_ydata = \<lparr>chart = Some \<lparr>chart_error = None, chart_result = Some [example_yresult]\<rparr>\<rparr>"

definition answers :: "'d \<Rightarrow> 'd fetch_outcome" where
  "answers data = \<lparr>latency = 120, settles = Inr \<lparr>status = 200, body = Json data\<rparr>\<rparr>"

text \<open>
  For the daily chart of \<open>ABC\<close>: the first intermediary does not answer in time, the
  second answers 503, the third delivers the payload above.
\<close>

definition example_chart_host :: host where
  "example_chart_host =
     example_host
       \<lparr>fetch_yahoo := (\<lambda>url.
          if url = ''https://thingproxy.freeboard.io/fetch/https://query1.finance.yahoo.com/v8/finance/chart/ABC?range=2y&interval=1d''
          then answers example_ydata
          else if url = ''https://cors.eu.org/https://query1.finance.yahoo.com/v8/finance/chart/ABC?range=2y&interval=1d''
          then \<lparr>latency = 80, settles = Inr \<lparr>status = 503, body = Malformed\<rparr>\<rparr>
          else unreachable url)\<rparr>"

text \<open>The first intermediary delivers the payload for the quote request of \<open>ABC\<close>.\<close>

definition example_quote_host :: host where
  "example_quote_host =
     example_host
       \<lparr>fetch_yahoo := (\<lambda>url.
          if url = ''https://corsproxy.io/?https://query1.finance.yahoo.com/v8/finance/chart/ABC?range=1d&interval=1m''
          then answers example_ydata
          else unreachable url)\<rparr>"

text \<open>
  The primary source is unreachable and the fallback answers every candle request with
  three bars, the second with a \<open>null\<close> volume; in the second host the second bar also
  has a \<open>null\<close> close.
\<close>

definition example_fcandles :: fcandles where
  "example_fcandles =
     \<lparr>f_s = Some ''ok'',
      f_t = Some [1699886400, 1699972800, 1700059200],
      f_o = Some [Some 100, Some 101, Some 102],
      f_h = Some [Some 101, Some 102, Some 103],
      f_l = Some [Some 99, Some 100, Some 101],
      f_c = Some [Some (201 / 2), Some (201 / 2), Some (205 / 2)],
      f_v = Some [Some 1000, None, Some 3000]\<rparr>"

definition example_fallback_host :: host where
  "example_fallback_host = example_host\<lparr>fetch_candle := (\<lambda>url. answers example_fcandles)\<rparr>"

definition example_null_close_host :: host where
  "example_null_close_host =
     example_host
       \<lparr>fetch_candle := (\<lambda>url. answers
          (example_fcandles\<lparr>f_c := Some [Some (201 / 2), None, Some (205 / 2)]\<rparr>))\<rparr>"

text \<open>The payload the three bars of \<open>example_fcandles\<close> make.\<close>

definition example_fallback_payload :: MarketDataPayload where
  "example_fallback_payload =
     payload_of
       [make_bar example_fallback_host 1699886400 (isoDate example_fallback_host 1699886400)
          100 101 99 (201 / 2) (Num 1000),
        make_bar example_fallback_host 1699972800 (isoDate example_fallback_host 1699972800)
          101 102 100 (201 / 2) Null,
        make_bar example_fallback_host 1700059200 (isoDate example_fallback_host 1700059200)
          102 103 101 (205 / 2) (Num 3000)]"

text \<open>
  A session for \<open>ABC\<close> whose timer fires ten times while the network does not answer,
  and whose ten requests then all fail; and the session the next analysis request for
  \<open>ABC\<close> starts from there.
\<close>

definition example_late_failures :: app where
  "example_late_failures =
     app_run FINNHUB_API_KEY (replicate 10 (Fires 1) @ replicate 10 (Settles example_host))
       (handleAnalysisRequest_resume (Some ''ABC'') (handleAnalysisRequest_begin App_init))"

definition example_next_session :: app where
  "example_next_session =
     handleAnalysisRequest_resume (Some ''ABC'') (handleAnalysisRequest_begin example_late_failures)"

section \<open>The relay\<close>

lemma relay_loop_Cons_fst:
  "fst (relay_loop h url (p # ps) le) =
     Fetch (fetchUrl_of h p url) (Some 30000) #
       (case yahoo_attempt h p url of
          Inr data \<Rightarrow> []
        | Inl e \<Rightarrow> fst (relay_loop h url ps (Some (caught e))))"
  by (simp split: sum.splits prod.splits)

lemma relay_loop_Cons_snd:
  "snd (relay_loop h url (p # ps) le) =
       (case yahoo_attempt h p url of
          Inr data \<Rightarrow> Inr data
        | Inl e \<Rightarrow> snd (relay_loop h url ps (Some (caught e))))"
  by (simp split: sum.splits prod.splits)

lemma relay_loop_events:
  "fst (relay_loop h url ps le) =
     map (\<lambda>p. Fetch (fetchUrl_of h p url) (Some 30000))
         (takeWhile (\<lambda>p. isl (yahoo_attempt h p url)) ps
          @ take 1 (dropWhile (\<lambda>p. isl (yahoo_attempt h p url)) ps))"
proof (induction ps arbitrary: le)
  case Nil
  show ?case by simp
next
  case (Cons p ps)
  show ?case
    by (cases "yahoo_attempt h p url") (simp_all add: case_prod_beta Cons.IH)
qed

lemma relay_loop_success:
  "dropWhile (\<lambda>p. isl (yahoo_attempt h p url)) ps = p # rest \<Longrightarrow>
   snd (relay_loop h url ps le) = yahoo_attempt h p url"
proof (induction ps arbitrary: le)
  case Nil
  then show ?case by simp
next
  case (Cons a ps)
  show ?case
  proof (cases "yahoo_attempt h a url")
    case (Inl e)
    with Cons.prems have "dropWhile (\<lambda>p. isl (yahoo_attempt h p url)) ps = p # rest"
      by simp
    from Cons.IH [OF this] Inl show ?thesis
      by (simp add: case_prod_beta)
  next
    case (Inr data)
    with Cons.prems have "a = p" by simp
    with Inr show ?thesis by (simp add: case_prod_beta)
  qed
qed

lemma relay_loop_all_fail:
  "ps \<noteq> [] \<Longrightarrow> \<forall>p\<in>set ps. isl (yahoo_attempt h p url) \<Longrightarrow>
   \<exists>e. yahoo_attempt h (last ps) url = Inl e \<and> snd (relay_loop h url ps le) = Inl (caught e)"
proof (induction ps arbitrary: le)
  case Nil
  then show ?case by simp
next
  case (Cons p ps)
  then obtain e where e: "yahoo_attempt h p url = Inl e"
    by (cases "yahoo_attempt h p url") auto
  show ?case
  proof (cases "ps = []")
    case True
    with e show ?thesis by (simp add: case_prod_beta)
  next
    case False
    with Cons.prems have "\<forall>p\<in>set ps. isl (yahoo_attempt h p url)" by simp
    from Cons.IH [OF False this] obtain e' where
      "yahoo_attempt h (last ps) url = Inl e'"
      "snd (relay_loop h url ps (Some (caught e))) = Inl (caught e')"
      by blast
    with False e show ?thesis by (simp add: case_prod_beta)
  qed
qed

lemma yahoo_attempt_valid:
  "yahoo_attempt h p url = Inr data \<longleftrightarrow>
     (\<exists>response ch res.
        latency (fetch_yahoo h (fetchUrl_of h p url)) < 30000 \<and>
        settles (fetch_yahoo h (fetchUrl_of h p url)) = Inr response \<and>
        200 \<le> status response \<and> status response \<le> 299 \<and>
        body response = Json data \<and> chart data = Some ch \<and>
        chart_error ch = None \<and> chart_result ch = Some res)"
  by (auto simp: yahoo_attempt_def fetch_with_signal_def response_ok_def
           split: sum.splits body.splits option.splits if_splits)

lemma yahoo_attempt_timeout:
  "30000 \<le> latency (fetch_yahoo h (fetchUrl_of h p url)) \<Longrightarrow>
   yahoo_attempt h p url = Inl AbortError"
  by (simp add: yahoo_attempt_def fetch_with_signal_def)


lemma yahooFinanceFetch_first_success:
  assumes k: "k < length PROXIES"
    and before: "\<forall>j<k. isl (yahoo_attempt h (PROXIES ! j) url)"
    and ok: "yahoo_attempt h (PROXIES ! k) url = Inr data"
  shows "yahooFinanceFetch h url =
           (map (\<lambda>p. Fetch (fetchUrl_of h p url) (Some 30000)) (take (Suc k) PROXIES), Inr data)"
proof -
  let ?P = "\<lambda>p. isl (yahoo_attempt h p url)"
  have tw: "takeWhile ?P PROXIES = take k PROXIES"
    using before ok by (intro takeWhile_eq_take_P_nth) auto
  have "length (takeWhile ?P PROXIES) = k"
    using tw k by simp
  then have dw: "dropWhile ?P PROXIES = drop k PROXIES"
    by (simp add: dropWhile_eq_drop)
  have dk: "drop k PROXIES = PROXIES ! k # drop (Suc k) PROXIES"
    using k by (simp add: Cons_nth_drop_Suc)
  have "fst (yahooFinanceFetch h url) =
          map (\<lambda>p. Fetch (fetchUrl_of h p url) (Some 30000)) (take (Suc k) PROXIES)"
    unfolding yahooFinanceFetch_def relay_loop_events tw dw dk
    using k by (simp add: take_Suc_conv_app_nth)
  moreover have "snd (yahooFinanceFetch h url) = Inr data"
    unfolding yahooFinanceFetch_def
    using relay_loop_success [of h url PROXIES "PROXIES ! k" "drop (Suc k) PROXIES" None] dw dk ok
    by simp
  ultimately show ?thesis by (simp add: prod_eq_iff)
qed

lemma yahooFinanceFetch_all_fail:
  assumes "\<forall>p\<in>set PROXIES. isl (yahoo_attempt h p url)"
  shows "\<exists>e. yahoo_attempt h (last PROXIES) url = Inl e \<and>
             yahooFinanceFetch h url =
               (map (\<lambda>p. Fetch (fetchUrl_of h p url) (Some 30000)) PROXIES, Inl (caught e))"
proof -
  let ?P = "\<lambda>p. isl (yahoo_attempt h p url)"
  have ne: "PROXIES \<noteq> []" by (simp add: PROXIES_def)
  from relay_loop_all_fail [OF ne assms, of None] obtain e where
    e: "yahoo_attempt h (last PROXIES) url = Inl e"
       "snd (relay_loop h url PROXIES None) = Inl (caught e)"
    by blast
  have tw: "takeWhile ?P PROXIES = PROXIES" and dw: "dropWhile ?P PROXIES = []"
    using assms by simp_all
  have "fst (relay_loop h url PROXIES None) =
               map (\<lambda>p. Fetch (fetchUrl_of h p url) (Some 30000)) PROXIES"
    unfolding relay_loop_events tw dw by simp
  with e show ?thesis
    unfolding yahooFinanceFetch_def by (auto simp: prod_eq_iff)
qed

text \<open>
  Claim C7. For every target URL, \<open>yahooFinanceFetch\<close> tries the intermediaries in the
  order of the list \<open>PROXIES\<close>, each request with a 30-second abort timer. If attempt
  \<open>k\<close> is the first to yield a payload, exactly the first \<open>k + 1\<close> intermediaries are
  requested and that payload is returned. If every attempt fails, all four are
  requested and the error thrown is the one of the last attempt, replaced by the
  time-out message when that error is an \<open>AbortError\<close>. An attempt yields a payload
  exactly when the response arrives in time with a status from 200 to 299 and a body
  with a \<open>chart\<close> that has no \<open>error\<close> and has a \<open>result\<close>; an attempt that is still
  open after 30 seconds fails with an \<open>AbortError\<close>.
\<close>

theorem yahooFinanceFetch_relay_order:
  "(k < length PROXIES \<and> (\<forall>j<k. isl (yahoo_attempt h (PROXIES ! j) url))
      \<and> yahoo_attempt h (PROXIES ! k) url = Inr data
    \<longrightarrow> yahooFinanceFetch h url =
          (map (\<lambda>p. Fetch (fetchUrl_of h p url) (Some 30000)) (take (Suc k) PROXIES), Inr data))
   \<and> ((\<forall>p\<in>set PROXIES. isl (yahoo_attempt h p url))
    \<longrightarrow> (\<exists>e. yahoo_attempt h (last PROXIES) url = Inl e
            \<and> yahooFinanceFetch h url =
                (map (\<lambda>p. Fetch (fetchUrl_of h p url) (Some 30000)) PROXIES,
                 Inl (if err_name e = ''AbortError''
                      then Error ''Request timed out. The data provider is not responding.''
                      else e))))
   \<and> (yahoo_attempt h p url = Inr data' \<longleftrightarrow>
        (\<exists>response ch res.
           latency (fetch_yahoo h (fetchUrl_of h p url)) < 30000 \<and>
           settles (fetch_yahoo h (fetchUrl_of h p url)) = Inr response \<and>
           200 \<le> status response \<and> status response \<le> 299 \<and>
           body response = Json data' \<and> chart data' = Some ch \<and>
           chart_error ch = None \<and> chart_result ch = Some res))
   \<and> (30000 \<le> latency (fetch_yahoo h (fetchUrl_of h p url))
    \<longrightarrow> yahoo_attempt h p url = Inl AbortError)
   \<and> map prefix PROXIES =
        [''https://corsproxy.io/?'', ''https://cors.eu.org/'',
         ''https://thingproxy.freeboard.io/fetch/'', ''https://api.allorigins.win/raw?url='']"
proof (intro conjI impI)
  assume "k < length PROXIES \<and> (\<forall>j<k. isl (yahoo_attempt h (PROXIES ! j) url))
      \<and> yahoo_attempt h (PROXIES ! k) url = Inr data"
  then show "yahooFinanceFetch h url =
          (map (\<lambda>p. Fetch (fetchUrl_of h p url) (Some 30000)) (take (Suc k) PROXIES), Inr data)"
    using yahooFinanceFetch_first_success by blast
next
  assume "\<forall>p\<in>set PROXIES. isl (yahoo_attempt h p url)"
  from yahooFinanceFetch_all_fail [OF this]
  show "\<exists>e. yahoo_attempt h (last PROXIES) url = Inl e
            \<and> yahooFinanceFetch h url =
                (map (\<lambda>p. Fetch (fetchUrl_of h p url) (Some 30000)) PROXIES,
                 Inl (if err_name e = ''AbortError''
                      then Error ''Request timed out. The data provider is not responding.''
                      else e))"
    by (simp add: caught_def)
next
  show "yahoo_attempt h p url = Inr data' \<longleftrightarrow>
        (\<exists>response ch res.
           latency (fetch_yahoo h (fetchUrl_of h p url)) < 30000 \<and>
           settles (fetch_yahoo h (fetchUrl_of h p url)) = Inr response \<and>
           200 \<le> status response \<and> status response \<le> 299 \<and>
           body response = Json data' \<and> chart data' = Some ch \<and>
           chart_error ch = None \<and> chart_result ch = Some res)"
    by (rule yahoo_attempt_valid)
next
  assume "30000 \<le> latency (fetch_yahoo h (fetchUrl_of h p url))"
  then show "yahoo_attempt h p url = Inl AbortError"
    by (rule yahoo_attempt_timeout)
next
  show "map prefix PROXIES =
        [''https://corsproxy.io/?'', ''https://cors.eu.org/'',
         ''https://thingproxy.freeboard.io/fetch/'', ''https://api.allorigins.win/raw?url='']"
    by (simp add: PROXIES_def)
qed

subsection \<open>The example hosts, evaluated\<close>

lemmas example_defs =
  example_host_def example_chart_host_def example_quote_host_def example_fallback_host_def
  example_null_close_host_def unreachable_def answers_def

lemma example_chart_attempts:
  "yahoo_attempt example_chart_host (PROXIES ! 0)
     ''https://query1.finance.yahoo.com/v8/finance/chart/ABC?range=2y&interval=1d'' = Inl AbortError"
  "yahoo_attempt example_chart_host (PROXIES ! 1)
     ''https://query1.finance.yahoo.com/v8/finance/chart/ABC?range=2y&interval=1d''
   = Inl (Error ''Yahoo Finance request via https://cors.eu.org/ failed with status 503'')"
  "yahoo_attempt example_chart_host (PROXIES ! 2)
     ''https://query1.finance.yahoo.com/v8/finance/chart/ABC?range=2y&interval=1d'' = Inr example_ydata"
    by (simp_all add: yahoo_attempt_def PROXIES_def fetchUrl_of_def example_defs
        fetch_with_signal_def response_ok_def example_ydata_def show_nat.simps)

lemma example_host_attempts:
  "yahoo_attempt example_host p url = Inl AbortError"
  by (simp add: yahoo_attempt_def example_defs fetch_with_signal_def)

theorem yahooFinanceFetch_relay_order_witness:
  "yahooFinanceFetch example_chart_host
     ''https://query1.finance.yahoo.com/v8/finance/chart/ABC?range=2y&interval=1d''
   = ([Fetch ''https://corsproxy.io/?https://query1.finance.yahoo.com/v8/finance/chart/ABC?range=2y&interval=1d'' (Some 30000),
       Fetch ''https://cors.eu.org/https://query1.finance.yahoo.com/v8/finance/chart/ABC?range=2y&interval=1d'' (Some 30000),
       Fetch ''https://thingproxy.freeboard.io/fetch/https://query1.finance.yahoo.com/v8/finance/chart/ABC?range=2y&interval=1d'' (Some 30000)],
      Inr example_ydata)
   \<and> snd (yahooFinanceFetch example_host ''u'')
       = Inl (Error ''Request timed out. The data provider is not responding.'')
   \<and> length (fst (yahooFinanceFetch example_host ''u'')) = 4"
proof -
  let ?url = "''https://query1.finance.yahoo.com/v8/finance/chart/ABC?range=2y&interval=1d''"
  have k: "(2::nat) < length PROXIES" by (simp add: PROXIES_def)
  have before: "\<forall>j<2. isl (yahoo_attempt example_chart_host (PROXIES ! j) ?url)"
    using example_chart_attempts(1,2) by (auto simp: less_Suc_eq numeral_2_eq_2)
  have "yahooFinanceFetch example_chart_host ?url =
          (map (\<lambda>p. Fetch (fetchUrl_of example_chart_host p ?url) (Some 30000))
               (take (Suc 2) PROXIES), Inr example_ydata)"
    using yahooFinanceFetch_relay_order [of 2 example_chart_host ?url example_ydata]
      k before example_chart_attempts(3) by blast
  then have first: "yahooFinanceFetch example_chart_host ?url
   = ([Fetch ''https://corsproxy.io/?https://query1.finance.yahoo.com/v8/finance/chart/ABC?range=2y&interval=1d'' (Some 30000),
       Fetch ''https://cors.eu.org/https://query1.finance.yahoo.com/v8/finance/chart/ABC?range=2y&interval=1d'' (Some 30000),
       Fetch ''https://thingproxy.freeboard.io/fetch/https://query1.finance.yahoo.com/v8/finance/chart/ABC?range=2y&interval=1d'' (Some 30000)],
      Inr example_ydata)"
    by (simp add: PROXIES_def fetchUrl_of_def numeral_3_eq_3 [symmetric] example_defs)
  have "\<forall>p\<in>set PROXIES. isl (yahoo_attempt example_host p ''u'')"
    by (simp add: example_host_attempts)
  with yahooFinanceFetch_relay_order [of _ example_host "''u''"]
  obtain e where e: "yahoo_attempt example_host (last PROXIES) ''u'' = Inl e"
    and r: "yahooFinanceFetch example_host ''u'' =
       (map (\<lambda>p. Fetch (fetchUrl_of example_host p ''u'') (Some 30000)) PROXIES,
        Inl (if err_name e = ''AbortError''
             then Error ''Request timed out. The data provider is not responding.'' else e))"
    by blast
  from e have "e = AbortError"
    by (simp add: example_host_attempts)
  with r have "snd (yahooFinanceFetch example_host ''u'')
       = Inl (Error ''Request timed out. The data provider is not responding.'')
   \<and> length (fst (yahooFinanceFetch example_host ''u'')) = 4"
    by (simp add: PROXIES_def)
  with first show ?thesis by blast
qed

section \<open>The quote orchestrator\<close>

lemma relay_loop_only_requests:
  "calls f (fst (relay_loop h url ps le)) = 0"
  by (simp add: relay_loop_events calls_def)

lemma yahooFinanceFetch_only_requests:
  "calls f (fst (yahooFinanceFetch h url)) = 0"
  by (simp add: yahooFinanceFetch_def relay_loop_only_requests)

lemma calls_append: "calls f (xs @ ys) = calls f xs + calls f ys"
  by (simp add: calls_def)

lemma calls_Cons: "calls f (ev # evs) = (if ev = Call f then 1 else 0) + calls f evs"
  by (simp add: calls_def)

lemma fetchLivePriceFromYahoo_events:
  "fst (fetchLivePriceFromYahoo h symbol) =
     Call ''fetchLivePriceFromYahoo'' # fst (yahooFinanceFetch h (yahoo_quote_url h symbol))"
  by (simp add: fetchLivePriceFromYahoo_def split: prod.splits sum.splits)

lemma fetchLivePriceFromYahoo_result:
  "snd (fetchLivePriceFromYahoo h symbol) =
     (case snd (yahooFinanceFetch h (yahoo_quote_url h symbol)) of
        Inl e \<Rightarrow> Inl e
      | Inr data \<Rightarrow>
          if \<not> truthy (yahoo_price data)
          then Inl (Error (''No live price found for '' @ symbol
                           @ '' in Yahoo Finance response.''))
          else Inr (Some (formatPrice h (yahoo_price data))))"
  by (cases "yahooFinanceFetch h (yahoo_quote_url h symbol)")
     (simp add: fetchLivePriceFromYahoo_def split: sum.splits)

lemma fetchLivePriceFromYahoo_price:
  "snd (fetchLivePriceFromYahoo h symbol) = Inr price \<Longrightarrow> price \<noteq> None"
  by (auto simp: fetchLivePriceFromYahoo_result split: sum.splits if_splits)

lemma fetchLivePriceFromFinnhub_calls:
  "calls ''fetchLivePriceFromFinnhub'' (fst (fetchLivePriceFromFinnhub key h symbol)) = 1"
  by (simp add: fetchLivePriceFromFinnhub_def calls_def)

lemma fetchLivePrice_unfold:
  "symbol \<noteq> [] \<Longrightarrow>
   fetchLivePrice key h symbol =
     (case snd (fetchLivePriceFromYahoo h symbol) of
        Inr price \<Rightarrow> (fst (fetchLivePriceFromYahoo h symbol), Inr price)
      | Inl e \<Rightarrow>
          (fst (fetchLivePriceFromYahoo h symbol) @ fst (fetchLivePriceFromFinnhub key h symbol),
           case snd (fetchLivePriceFromFinnhub key h symbol) of
             Inr price \<Rightarrow> Inr price
           | Inl e' \<Rightarrow> Inr None))"
  by (cases "fetchLivePriceFromYahoo h symbol"; cases "fetchLivePriceFromFinnhub key h symbol")
     (simp add: fetchLivePrice_def split: sum.splits)

text \<open>
  Claim C2. For every symbol, every credential and every behaviour of the network,
  \<open>fetchLivePrice\<close> returns and never throws. When the primary source throws (for a
  non-empty symbol), the fallback is called exactly once, after the primary source, and
  the result is the fallback's price, or \<open>null\<close> when the fallback throws or has no
  price. A \<open>null\<close> result for a non-empty symbol means that the primary source threw and
  the fallback was called as well. When the primary source returns, its price is the
  result and is not \<open>null\<close>. An empty symbol is \<open>null\<close> at once.
\<close>

theorem fetchLivePrice_never_throws:
  "(\<exists>price. snd (fetchLivePrice key h symbol) = Inr price)
   \<and> (symbol \<noteq> [] \<and> snd (fetchLivePriceFromYahoo h symbol) = Inl e \<longrightarrow>
        fst (fetchLivePrice key h symbol) =
          fst (fetchLivePriceFromYahoo h symbol) @ fst (fetchLivePriceFromFinnhub key h symbol)
        \<and> calls ''fetchLivePriceFromFinnhub'' (fst (fetchLivePrice key h symbol)) = 1
        \<and> snd (fetchLivePrice key h symbol) =
            (case snd (fetchLivePriceFromFinnhub key h symbol) of
               Inr price \<Rightarrow> Inr price
             | Inl e' \<Rightarrow> Inr None))
   \<and> (symbol \<noteq> [] \<and> snd (fetchLivePrice key h symbol) = Inr None \<longrightarrow>
        isl (snd (fetchLivePriceFromYahoo h symbol))
        \<and> calls ''fetchLivePriceFromYahoo'' (fst (fetchLivePrice key h symbol)) = 1
        \<and> calls ''fetchLivePriceFromFinnhub'' (fst (fetchLivePrice key h symbol)) = 1)
   \<and> (symbol \<noteq> [] \<and> snd (fetchLivePriceFromYahoo h symbol) = Inr price' \<longrightarrow>
        fetchLivePrice key h symbol = (fst (fetchLivePriceFromYahoo h symbol), Inr price')
        \<and> price' \<noteq> None)
   \<and> (symbol = [] \<longrightarrow> fetchLivePrice key h symbol = ([], Inr None))"
proof (intro conjI impI)
  show "\<exists>price. snd (fetchLivePrice key h symbol) = Inr price"
  proof (cases "symbol = []")
    case True
    then show ?thesis by (simp add: fetchLivePrice_def)
  next
    case False
    then show ?thesis by (simp add: fetchLivePrice_unfold split: sum.splits)
  qed
next
  assume a: "symbol \<noteq> [] \<and> snd (fetchLivePriceFromYahoo h symbol) = Inl e"
  then show "fst (fetchLivePrice key h symbol) =
          fst (fetchLivePriceFromYahoo h symbol) @ fst (fetchLivePriceFromFinnhub key h symbol)"
    by (simp add: fetchLivePrice_unfold)
  from a show "calls ''fetchLivePriceFromFinnhub'' (fst (fetchLivePrice key h symbol)) = 1"
    by (simp add: fetchLivePrice_unfold calls_append calls_Cons fetchLivePriceFromYahoo_events
        yahooFinanceFetch_only_requests fetchLivePriceFromFinnhub_calls)
  from a show "snd (fetchLivePrice key h symbol) =
            (case snd (fetchLivePriceFromFinnhub key h symbol) of
               Inr price \<Rightarrow> Inr price
             | Inl e' \<Rightarrow> Inr None)"
    by (simp add: fetchLivePrice_unfold)
next
  assume a: "symbol \<noteq> [] \<and> snd (fetchLivePrice key h symbol) = Inr None"
  then show y: "isl (snd (fetchLivePriceFromYahoo h symbol))"
    by (cases "snd (fetchLivePriceFromYahoo h symbol)")
       (auto simp: fetchLivePrice_unfold dest: fetchLivePriceFromYahoo_price)
  with a show "calls ''fetchLivePriceFromYahoo'' (fst (fetchLivePrice key h symbol)) = 1"
    by (cases "snd (fetchLivePriceFromYahoo h symbol)")
       (simp_all add: fetchLivePrice_unfold calls_append calls_Cons fetchLivePriceFromYahoo_events
        yahooFinanceFetch_only_requests fetchLivePriceFromFinnhub_def, simp add: calls_def)
  from a y show "calls ''fetchLivePriceFromFinnhub'' (fst (fetchLivePrice key h symbol)) = 1"
    by (cases "snd (fetchLivePriceFromYahoo h symbol)")
       (simp_all add: fetchLivePrice_unfold calls_append calls_Cons fetchLivePriceFromYahoo_events
        yahooFinanceFetch_only_requests fetchLivePriceFromFinnhub_calls)
next
  assume a: "symbol \<noteq> [] \<and> snd (fetchLivePriceFromYahoo h symbol) = Inr price'"
  then show "fetchLivePrice key h symbol = (fst (fetchLivePriceFromYahoo h symbol), Inr price')"
    by (simp add: fetchLivePrice_unfold)
  from a show "price' \<noteq> None"
    by (auto dest: fetchLivePriceFromYahoo_price)
next
  assume "symbol = []"
  then show "fetchLivePrice key h symbol = ([], Inr None)"
    by (simp add: fetchLivePrice_def)
qed

lemma example_host_relay:
  "snd (yahooFinanceFetch example_host url)
     = Inl (Error ''Request timed out. The data provider is not responding.'')"
  by (simp add: yahooFinanceFetch_def PROXIES_def example_host_attempts caught_def)

lemma example_host_yahoo_quote:
  "snd (fetchLivePriceFromYahoo example_host ''ABC'')
     = Inl (Error ''Request timed out. The data provider is not responding.'')"
  by (simp add: fetchLivePriceFromYahoo_result example_host_relay)

lemma example_host_finnhub_quote:
  "snd (fetchLivePriceFromFinnhub FINNHUB_API_KEY example_host ''ABC'')
     = Inl (JSError ''TypeError'' ''Failed to fetch'')"
  by (simp add: fetchLivePriceFromFinnhub_def FINNHUB_API_KEY_def endsWith_def fetch_plain_def
      example_defs)

theorem fetchLivePrice_never_throws_witness:
  "snd (fetchLivePrice FINNHUB_API_KEY example_host ''ABC'') = Inr None
   \<and> calls ''fetchLivePriceFromFinnhub'' (fst (fetchLivePrice FINNHUB_API_KEY example_host ''ABC'')) = 1"
proof -
  let ?e = "Error ''Request timed out. The data provider is not responding.''"
  have y: "''ABC'' \<noteq> [] \<and> snd (fetchLivePriceFromYahoo example_host ''ABC'') = Inl ?e"
    using example_host_yahoo_quote by simp
  note t = fetchLivePrice_never_throws [of FINNHUB_API_KEY example_host "''ABC''" ?e]
  from t y have c: "calls ''fetchLivePriceFromFinnhub''
                      (fst (fetchLivePrice FINNHUB_API_KEY example_host ''ABC'')) = 1"
    by blast
  from t y have "snd (fetchLivePrice FINNHUB_API_KEY example_host ''ABC'') =
            (case snd (fetchLivePriceFromFinnhub FINNHUB_API_KEY example_host ''ABC'') of
               Inr price \<Rightarrow> Inr price
             | Inl e' \<Rightarrow> Inr None)"
    by blast
  then have "snd (fetchLivePrice FINNHUB_API_KEY example_host ''ABC'') = Inr None"
    by (simp add: example_host_finnhub_quote)
  with c show ?thesis by blast
qed

section \<open>The series orchestrator\<close>

lemma fetchMarketDataFromYahoo_events:
  "fst (fetchMarketDataFromYahoo h symbol timeframe) =
     Call ''fetchMarketDataFromYahoo'' # fst (yahooFinanceFetch h (yahoo_chart_url h symbol timeframe))"
  by (simp add: fetchMarketDataFromYahoo_def split: prod.splits sum.splits)

lemma fetchMarketDataFromYahoo_result:
  "snd (fetchMarketDataFromYahoo h symbol timeframe) =
     (case snd (yahooFinanceFetch h (yahoo_chart_url h symbol timeframe)) of
        Inl e \<Rightarrow> Inl e
      | Inr data \<Rightarrow> yahoo_series h data)"
  by (cases "yahooFinanceFetch h (yahoo_chart_url h symbol timeframe)")
     (simp add: fetchMarketDataFromYahoo_def split: sum.splits)

lemma fetchMarketDataFromYahoo_calls:
  "calls ''fetchMarketDataFromYahoo'' (fst (fetchMarketDataFromYahoo h symbol timeframe)) = 1"
  "calls ''fetchMarketDataFromFinnhub'' (fst (fetchMarketDataFromYahoo h symbol timeframe)) = 0"
  by (simp_all add: fetchMarketDataFromYahoo_events calls_Cons yahooFinanceFetch_only_requests)

lemma fetchMarketDataFromFinnhub_calls:
  "calls ''fetchMarketDataFromFinnhub'' (fst (fetchMarketDataFromFinnhub key h symbol timeframe)) = 1"
  "calls ''fetchMarketDataFromYahoo'' (fst (fetchMarketDataFromFinnhub key h symbol timeframe)) = 0"
  by (simp_all add: fetchMarketDataFromFinnhub_def calls_def)

lemma fetchMarketData_unfold:
  "fetchMarketData key h symbol timeframe =
     (case snd (fetchMarketDataFromYahoo h symbol timeframe) of
        Inr payload \<Rightarrow> (fst (fetchMarketDataFromYahoo h symbol timeframe), Inr payload)
      | Inl e \<Rightarrow>
          if key = []
          then (fst (fetchMarketDataFromYahoo h symbol timeframe), Inl (fallback_unavailable symbol))
          else (fst (fetchMarketDataFromYahoo h symbol timeframe)
                  @ fst (fetchMarketDataFromFinnhub key h symbol timeframe),
                case snd (fetchMarketDataFromFinnhub key h symbol timeframe) of
                  Inr payload \<Rightarrow> Inr payload
                | Inl e' \<Rightarrow> Inl (all_providers_failed symbol)))"
  by (cases "fetchMarketDataFromYahoo h symbol timeframe";
      cases "fetchMarketDataFromFinnhub key h symbol timeframe")
     (simp add: fetchMarketData_def split: sum.splits)

text \<open>
  Claim C3. For every symbol and timeframe, \<open>fetchMarketData\<close> enters the primary
  provider first and exactly once: the events of the call begin with those of
  \<open>fetchMarketDataFromYahoo\<close>. When the primary provider returns, its payload is the
  result and the fallback is not entered. When the primary provider throws and the
  credential is set, the fallback is entered exactly once, after the primary provider,
  and the result is the fallback's payload if it returns and the error
  \<open>all_providers_failed\<close> if it throws. The call throws only when the primary provider
  threw and either the credential is missing or the fallback threw too.
\<close>

theorem fetchMarketData_fallback_policy:
  "(\<exists>evs. fst (fetchMarketData key h symbol timeframe) =
            fst (fetchMarketDataFromYahoo h symbol timeframe) @ evs)
   \<and> calls ''fetchMarketDataFromYahoo'' (fst (fetchMarketData key h symbol timeframe)) = 1
   \<and> (snd (fetchMarketDataFromYahoo h symbol timeframe) = Inr payload \<longrightarrow>
        fetchMarketData key h symbol timeframe =
          (fst (fetchMarketDataFromYahoo h symbol timeframe), Inr payload)
        \<and> calls ''fetchMarketDataFromFinnhub'' (fst (fetchMarketData key h symbol timeframe)) = 0)
   \<and> (snd (fetchMarketDataFromYahoo h symbol timeframe) = Inl e \<and> key \<noteq> [] \<longrightarrow>
        fst (fetchMarketData key h symbol timeframe) =
          fst (fetchMarketDataFromYahoo h symbol timeframe)
          @ fst (fetchMarketDataFromFinnhub key h symbol timeframe)
        \<and> calls ''fetchMarketDataFromFinnhub'' (fst (fetchMarketData key h symbol timeframe)) = 1
        \<and> snd (fetchMarketData key h symbol timeframe) =
            (case snd (fetchMarketDataFromFinnhub key h symbol timeframe) of
               Inr payload' \<Rightarrow> Inr payload'
             | Inl e' \<Rightarrow> Inl (all_providers_failed symbol)))
   \<and> (snd (fetchMarketData key h symbol timeframe) = Inl err \<longrightarrow>
        isl (snd (fetchMarketDataFromYahoo h symbol timeframe))
        \<and> ((key = [] \<and> err = fallback_unavailable symbol)
           \<or> (key \<noteq> [] \<and> isl (snd (fetchMarketDataFromFinnhub key h symbol timeframe))
              \<and> err = all_providers_failed symbol)))"
proof (intro conjI impI)
  show "\<exists>evs. fst (fetchMarketData key h symbol timeframe) =
            fst (fetchMarketDataFromYahoo h symbol timeframe) @ evs"
    by (simp add: fetchMarketData_unfold split: sum.splits)
  show "calls ''fetchMarketDataFromYahoo'' (fst (fetchMarketData key h symbol timeframe)) = 1"
    by (simp add: fetchMarketData_unfold calls_append fetchMarketDataFromYahoo_calls
        fetchMarketDataFromFinnhub_calls split: sum.splits)
next
  assume a: "snd (fetchMarketDataFromYahoo h symbol timeframe) = Inr payload"
  then show "fetchMarketData key h symbol timeframe =
          (fst (fetchMarketDataFromYahoo h symbol timeframe), Inr payload)"
    by (simp add: fetchMarketData_unfold)
  from a show "calls ''fetchMarketDataFromFinnhub'' (fst (fetchMarketData key h symbol timeframe)) = 0"
    by (simp add: fetchMarketData_unfold fetchMarketDataFromYahoo_calls)
next
  assume a: "snd (fetchMarketDataFromYahoo h symbol timeframe) = Inl e \<and> key \<noteq> []"
  then show "fst (fetchMarketData key h symbol timeframe) =
          fst (fetchMarketDataFromYahoo h symbol timeframe)
          @ fst (fetchMarketDataFromFinnhub key h symbol timeframe)"
    by (simp add: fetchMarketData_unfold)
  from a show "calls ''fetchMarketDataFromFinnhub'' (fst (fetchMarketData key h symbol timeframe)) = 1"
    by (simp add: fetchMarketData_unfold calls_append fetchMarketDataFromYahoo_calls
        fetchMarketDataFromFinnhub_calls)
  from a show "snd (fetchMarketData key h symbol timeframe) =
            (case snd (fetchMarketDataFromFinnhub key h symbol timeframe) of
               Inr payload' \<Rightarrow> Inr payload'
             | Inl e' \<Rightarrow> Inl (all_providers_failed symbol))"
    by (simp add: fetchMarketData_unfold)
next
  assume a: "snd (fetchMarketData key h symbol timeframe) = Inl err"
  then show "isl (snd (fetchMarketDataFromYahoo h symbol timeframe))"
    by (auto simp: fetchMarketData_unfold split: sum.splits)
  from a show "(key = [] \<and> err = fallback_unavailable symbol)
           \<or> (key \<noteq> [] \<and> isl (snd (fetchMarketDataFromFinnhub key h symbol timeframe))
              \<and> err = all_providers_failed symbol)"
    by (auto simp: fetchMarketData_unfold split: sum.splits if_splits)
qed

lemma example_host_yahoo_series:
  "snd (fetchMarketDataFromYahoo example_host symbol timeframe)
     = Inl (Error ''Request timed out. The data provider is not responding.'')"
  by (simp add: fetchMarketDataFromYahoo_result example_host_relay)

lemma example_fallback_host_relay:
  "snd (yahooFinanceFetch example_fallback_host url)
     = Inl (Error ''Request timed out. The data provider is not responding.'')"
  by (simp add: yahooFinanceFetch_def PROXIES_def yahoo_attempt_def fetch_with_signal_def
      example_defs caught_def)

lemma example_fallback_host_yahoo_series:
  "snd (fetchMarketDataFromYahoo example_fallback_host symbol timeframe)
     = Inl (Error ''Request timed out. The data provider is not responding.'')"
  by (simp add: fetchMarketDataFromYahoo_result example_fallback_host_relay)

lemma example_fallback_host_series:
  "snd (fetchMarketDataFromFinnhub FINNHUB_API_KEY example_fallback_host ''ABC'' ''Daily'')
     = finnhub_series example_fallback_host ''ABC'' example_fcandles"
  by (simp add: fetchMarketDataFromFinnhub_def FINNHUB_API_KEY_def endsWith_def fetch_plain_def
      response_ok_def example_defs)

lemma example_fallback_bars:
  "map_indexed (finnhub_row example_fallback_host example_fcandles)
     [1699886400, 1699972800, 1700059200] 0
   = Inr [make_bar example_fallback_host 1699886400 (isoDate example_fallback_host 1699886400)
            100 101 99 (201 / 2) (Num 1000),
          make_bar example_fallback_host 1699972800 (isoDate example_fallback_host 1699972800)
            101 102 100 (201 / 2) Null,
          make_bar example_fallback_host 1700059200 (isoDate example_fallback_host 1700059200)
            102 103 101 (205 / 2) (Num 3000)]"
  by (simp add: finnhub_row_def toISODate_def example_fcandles_def elem_at_def)

lemma example_fallback_series:
  "finnhub_series example_fallback_host ''ABC'' example_fcandles = Inr example_fallback_payload"
  using example_fallback_bars
  by (simp add: finnhub_series_def example_fcandles_def example_fallback_payload_def)

lemma example_host_finnhub_series:
  "snd (fetchMarketDataFromFinnhub FINNHUB_API_KEY example_host ''ABC'' ''Daily'')
     = Inl (JSError ''TypeError'' ''Failed to fetch'')"
  by (simp add: fetchMarketDataFromFinnhub_def FINNHUB_API_KEY_def endsWith_def fetch_plain_def
      example_defs)

lemma FINNHUB_API_KEY_configured: "FINNHUB_API_KEY \<noteq> []"
  by (simp add: FINNHUB_API_KEY_def)

theorem fetchMarketData_fallback_policy_witness:
  "snd (fetchMarketData FINNHUB_API_KEY example_fallback_host ''ABC'' ''Daily'')
     = Inr example_fallback_payload
   \<and> calls ''fetchMarketDataFromFinnhub''
        (fst (fetchMarketData FINNHUB_API_KEY example_fallback_host ''ABC'' ''Daily'')) = 1
   \<and> snd (fetchMarketData FINNHUB_API_KEY example_host ''ABC'' ''Daily'')
     = Inl (all_providers_failed ''ABC'')"
proof -
  let ?e = "Error ''Request timed out. The data provider is not responding.''"
  have y: "snd (fetchMarketDataFromYahoo example_fallback_host ''ABC'' ''Daily'') = Inl ?e
           \<and> FINNHUB_API_KEY \<noteq> []"
    by (simp add: example_fallback_host_yahoo_series FINNHUB_API_KEY_configured)
  note t = fetchMarketData_fallback_policy
             [of FINNHUB_API_KEY example_fallback_host "''ABC''" "''Daily''" _ ?e]
  from t y have c: "calls ''fetchMarketDataFromFinnhub''
        (fst (fetchMarketData FINNHUB_API_KEY example_fallback_host ''ABC'' ''Daily'')) = 1"
    by blast
  from t y have "snd (fetchMarketData FINNHUB_API_KEY example_fallback_host ''ABC'' ''Daily'') =
      (case snd (fetchMarketDataFromFinnhub FINNHUB_API_KEY example_fallback_host ''ABC'' ''Daily'') of
         Inr payload' \<Rightarrow> Inr payload'
       | Inl e' \<Rightarrow> Inl (all_providers_failed ''ABC''))"
    by blast
  then have r: "snd (fetchMarketData FINNHUB_API_KEY example_fallback_host ''ABC'' ''Daily'')
     = Inr example_fallback_payload"
    by (simp add: example_fallback_host_series example_fallback_series)
  have y': "snd (fetchMarketDataFromYahoo example_host ''ABC'' ''Daily'') = Inl ?e
           \<and> FINNHUB_API_KEY \<noteq> []"
    by (simp add: example_host_yahoo_series FINNHUB_API_KEY_configured)
  note t' = fetchMarketData_fallback_policy
             [of FINNHUB_API_KEY example_host "''ABC''" "''Daily''" _ ?e]
  from t' y' have "snd (fetchMarketData FINNHUB_API_KEY example_host ''ABC'' ''Daily'') =
      (case snd (fetchMarketDataFromFinnhub FINNHUB_API_KEY example_host ''ABC'' ''Daily'') of
         Inr payload' \<Rightarrow> Inr payload'
       | Inl e' \<Rightarrow> Inl (all_providers_failed ''ABC''))"
    by blast
  then have "snd (fetchMarketData FINNHUB_API_KEY example_host ''ABC'' ''Daily'')
     = Inl (all_providers_failed ''ABC'')"
    by (simp add: example_host_finnhub_series)
  with c r show ?thesis by blast
qed

lemma terminal_messages_differ:
  "fallback_unavailable symbol \<noteq> all_providers_failed symbol'"
proof
  assume "fallback_unavailable symbol = all_providers_failed symbol'"
  then have "rev (err_message (fallback_unavailable symbol))
             = rev (err_message (all_providers_failed symbol'))"
    by simp
  then show False
    by (simp add: fallback_unavailable_def all_providers_failed_def)
qed

text \<open>
  Claim C8. If the primary provider throws and the credential is empty,
  \<open>fetchMarketData\<close> throws \<open>fallback_unavailable\<close> and has done nothing but enter the
  primary provider and make its relay requests: the fallback is not entered. With a
  credential, a throw of both providers gives \<open>all_providers_failed\<close>, and the two
  errors differ, whatever the symbols in them. (In the source the credential is the
  constant \<open>FINNHUB_API_KEY\<close>, which is not empty; the model takes it as a parameter.)
\<close>

theorem fetchMarketData_without_credential:
  "(isl (snd (fetchMarketDataFromYahoo h symbol timeframe)) \<longrightarrow>
      fetchMarketData [] h symbol timeframe =
        (Call ''fetchMarketDataFromYahoo''
           # fst (yahooFinanceFetch h (yahoo_chart_url h symbol timeframe)),
         Inl (fallback_unavailable symbol))
      \<and> calls ''fetchMarketDataFromFinnhub'' (fst (fetchMarketData [] h symbol timeframe)) = 0)
   \<and> (key \<noteq> [] \<and> isl (snd (fetchMarketDataFromYahoo h symbol timeframe))
       \<and> isl (snd (fetchMarketDataFromFinnhub key h symbol timeframe)) \<longrightarrow>
      snd (fetchMarketData key h symbol timeframe) = Inl (all_providers_failed symbol)
      \<and> calls ''fetchMarketDataFromFinnhub'' (fst (fetchMarketData key h symbol timeframe)) = 1)
   \<and> fallback_unavailable symbol \<noteq> all_providers_failed symbol'"
proof (intro conjI impI)
  assume a: "isl (snd (fetchMarketDataFromYahoo h symbol timeframe))"
  then show "fetchMarketData [] h symbol timeframe =
        (Call ''fetchMarketDataFromYahoo''
           # fst (yahooFinanceFetch h (yahoo_chart_url h symbol timeframe)),
         Inl (fallback_unavailable symbol))"
    by (cases "snd (fetchMarketDataFromYahoo h symbol timeframe)")
       (simp_all add: fetchMarketData_unfold fetchMarketDataFromYahoo_events)
  from a show "calls ''fetchMarketDataFromFinnhub'' (fst (fetchMarketData [] h symbol timeframe)) = 0"
    by (cases "snd (fetchMarketDataFromYahoo h symbol timeframe)")
       (simp_all add: fetchMarketData_unfold fetchMarketDataFromYahoo_calls)
next
  assume a: "key \<noteq> [] \<and> isl (snd (fetchMarketDataFromYahoo h symbol timeframe))
       \<and> isl (snd (fetchMarketDataFromFinnhub key h symbol timeframe))"
  then show "snd (fetchMarketData key h symbol timeframe) = Inl (all_providers_failed symbol)"
    by (cases "snd (fetchMarketDataFromYahoo h symbol timeframe)";
        cases "snd (fetchMarketDataFromFinnhub key h symbol timeframe)")
       (simp_all add: fetchMarketData_unfold)
  from a show "calls ''fetchMarketDataFromFinnhub'' (fst (fetchMarketData key h symbol timeframe)) = 1"
    by (cases "snd (fetchMarketDataFromYahoo h symbol timeframe)")
       (simp_all add: fetchMarketData_unfold calls_append fetchMarketDataFromYahoo_calls
          fetchMarketDataFromFinnhub_calls)
next
  show "fallback_unavailable symbol \<noteq> all_providers_failed symbol'"
    by (rule terminal_messages_differ)
qed

theorem fetchMarketData_without_credential_witness:
  "snd (fetchMarketData [] example_fallback_host ''ABC'' ''Daily'')
     = Inl (fallback_unavailable ''ABC'')
   \<and> calls ''fetchMarketDataFromFinnhub''
        (fst (fetchMarketData [] example_fallback_host ''ABC'' ''Daily'')) = 0
   \<and> snd (fetchMarketData FINNHUB_API_KEY example_host ''ABC'' ''Daily'')
     = Inl (all_providers_failed ''ABC'')
   \<and> fallback_unavailable ''ABC'' \<noteq> all_providers_failed ''ABC''"
proof -
  have y: "isl (snd (fetchMarketDataFromYahoo example_fallback_host ''ABC'' ''Daily''))"
    by (simp add: example_fallback_host_yahoo_series)
  have z: "FINNHUB_API_KEY \<noteq> [] \<and> isl (snd (fetchMarketDataFromYahoo example_host ''ABC'' ''Daily''))
       \<and> isl (snd (fetchMarketDataFromFinnhub FINNHUB_API_KEY example_host ''ABC'' ''Daily''))"
    by (simp add: example_host_yahoo_series example_host_finnhub_series FINNHUB_API_KEY_configured)
  note t = fetchMarketData_without_credential [of example_fallback_host "''ABC''" "''Daily''"
         FINNHUB_API_KEY "''ABC''"]
  from t y have "fetchMarketData [] example_fallback_host ''ABC'' ''Daily'' =
        (Call ''fetchMarketDataFromYahoo''
           # fst (yahooFinanceFetch example_fallback_host
                    (yahoo_chart_url example_fallback_host ''ABC'' ''Daily'')),
         Inl (fallback_unavailable ''ABC''))"
    by blast
  then have a1: "snd (fetchMarketData [] example_fallback_host ''ABC'' ''Daily'')
     = Inl (fallback_unavailable ''ABC'')"
    by simp
  from t y have a2: "calls ''fetchMarketDataFromFinnhub''
        (fst (fetchMarketData [] example_fallback_host ''ABC'' ''Daily'')) = 0"
    by blast
  from t have a3: "fallback_unavailable ''ABC'' \<noteq> all_providers_failed ''ABC''"
    by blast
  note a = a1 a2 a3
  from fetchMarketData_without_credential [of example_host "''ABC''" "''Daily''"
         FINNHUB_API_KEY "''ABC''"] z
  have "snd (fetchMarketData FINNHUB_API_KEY example_host ''ABC'' ''Daily'')
     = Inl (all_providers_failed ''ABC'')"
    by blast
  with a show ?thesis by blast
qed

section \<open>The excluded market\<close>

lemma endsWith_NS: "endsWith ''RELIANCE.NS'' ''.NS''"
  by (simp add: endsWith_def)

text \<open>
  Claim C4, as amended. For a symbol that ends in \<open>.NS\<close>, neither operation of the
  fallback makes a request. \<open>fetchLivePriceFromFinnhub\<close> returns \<open>null\<close> and does not
  throw; \<open>fetchMarketDataFromFinnhub\<close> throws, with the unsupported-asset message when
  the credential is set.
\<close>

theorem finnhub_refuses_NS:
  "endsWith symbol ''.NS'' \<longrightarrow>
     fetchLivePriceFromFinnhub key h symbol = ([Call ''fetchLivePriceFromFinnhub''], Inr None)
     \<and> requests (fst (fetchLivePriceFromFinnhub key h symbol)) = []
     \<and> (key \<noteq> [] \<longrightarrow>
          fetchMarketDataFromFinnhub key h symbol timeframe =
            ([Call ''fetchMarketDataFromFinnhub''],
             Inl (Error ''Primary data source failed for Indian stock; Finnhub fallback is not supported for this asset on the current plan.'')))
     \<and> isl (snd (fetchMarketDataFromFinnhub key h symbol timeframe))
     \<and> requests (fst (fetchMarketDataFromFinnhub key h symbol timeframe)) = []"
  by (simp add: fetchLivePriceFromFinnhub_def fetchMarketDataFromFinnhub_def requests_def)

theorem finnhub_refuses_NS_witness:
  "fetchMarketDataFromFinnhub FINNHUB_API_KEY example_fallback_host ''RELIANCE.NS'' ''Daily'' =
     ([Call ''fetchMarketDataFromFinnhub''],
      Inl (Error ''Primary data source failed for Indian stock; Finnhub fallback is not supported for this asset on the current plan.''))
   \<and> requests (fst (fetchLivePriceFromFinnhub FINNHUB_API_KEY example_fallback_host ''RELIANCE.NS'')) = []"
  using finnhub_refuses_NS [of "''RELIANCE.NS''" FINNHUB_API_KEY example_fallback_host "''Daily''"]
    endsWith_NS FINNHUB_API_KEY_configured
  by blast

text \<open>
  Claim C4 as stated fails for the quote operation: for \<open>RELIANCE.NS\<close> it returns \<open>null\<close>,
  which is a return and not an error.
\<close>

theorem finnhub_quote_NS_returns_null:
  "fetchLivePriceFromFinnhub FINNHUB_API_KEY example_fallback_host ''RELIANCE.NS''
     = ([Call ''fetchLivePriceFromFinnhub''], Inr None)"
  by (simp add: fetchLivePriceFromFinnhub_def FINNHUB_API_KEY_def endsWith_def)

section \<open>The series of the primary source\<close>

lemma map_indexed_Inr_iff:
  "map_indexed f xs k = Inr rs \<longleftrightarrow>
     length rs = length xs \<and> (\<forall>j<length xs. f (xs ! j) (k + j) = Inr (rs ! j))"
proof (induction xs arbitrary: k rs)
  case Nil
  show ?case by auto
next
  case (Cons x xs)
  show ?case
  proof (cases "f x k")
    case (Inl e)
    then show ?thesis by auto
  next
    case r: (Inr r)
    show ?thesis
    proof (cases "map_indexed f xs (Suc k)")
      case (Inl e)
      have "\<not> (length (tl rs) = length xs \<and> (\<forall>j<length xs. f (xs ! j) (Suc k + j) = Inr (tl rs ! j)))"
        using Cons.IH [of "Suc k" "tl rs"] Inl by simp
      then have "\<not> (length rs = length (x # xs) \<and>
                  (\<forall>j<length (x # xs). f ((x # xs) ! j) (k + j) = Inr (rs ! j)))"
        by (cases rs) (auto simp: nth_Cons')
      with r Inl show ?thesis by simp
    next
      case rs': (Inr rs')
      then have IH: "length rs' = length xs" "\<forall>j<length xs. f (xs ! j) (Suc k + j) = Inr (rs' ! j)"
        using Cons.IH [of "Suc k" rs'] by simp_all
      show ?thesis
      proof
        assume "map_indexed f (x # xs) k = Inr rs"
        with r rs' have "rs = r # rs'" by simp
        with r IH show "length rs = length (x # xs) \<and>
                  (\<forall>j<length (x # xs). f ((x # xs) ! j) (k + j) = Inr (rs ! j))"
          by (auto simp: nth_Cons split: nat.splits)
      next
        assume a: "length rs = length (x # xs) \<and>
                  (\<forall>j<length (x # xs). f ((x # xs) ! j) (k + j) = Inr (rs ! j))"
        then obtain y ys where rs: "rs = y # ys" by (cases rs) auto
        from a rs have "f x k = Inr y" by auto
        with r have y: "y = r" by simp
        from a rs have "length ys = length xs"
          "\<forall>j<length xs. f (xs ! j) (Suc k + j) = Inr (ys ! j)"
          by auto
        then have "map_indexed f xs (Suc k) = Inr ys"
          using Cons.IH [of "Suc k" ys] by simp
        with rs' have "ys = rs'" by simp
        with r rs' rs y show "map_indexed f (x # xs) k = Inr rs" by simp
      qed
    qed
  qed
qed

lemma map_indexed_Inl:
  "map_indexed f xs k = Inl e \<Longrightarrow> \<exists>j<length xs. f (xs ! j) (k + j) = Inl e"
proof (induction xs arbitrary: k)
  case Nil
  then show ?case by simp
next
  case (Cons x xs)
  show ?case
  proof (cases "f x k")
    case (Inl e')
    with Cons.prems have "f ((x # xs) ! 0) (k + 0) = Inl e" by simp
    then show ?thesis by blast
  next
    case (Inr r)
    with Cons.prems have "map_indexed f xs (Suc k) = Inl e"
      by (simp split: sum.splits)
    from Cons.IH [OF this] obtain j where "j < length xs" "f (xs ! j) (Suc k + j) = Inl e"
      by blast
    then have "Suc j < length (x # xs)" "f ((x # xs) ! Suc j) (k + Suc j) = Inl e"
      by simp_all
    then show ?thesis by blast
  qed
qed

lemma kept_indexed:
  "\<forall>j<length rows. rows ! j = (if P (k + j) then Some (g (k + j)) else None) \<Longrightarrow>
   kept rows = map g (filter P [k..<k + length rows])"
proof (induction rows arbitrary: k)
  case Nil
  show ?case by simp
next
  case (Cons r rows)
  from Cons.prems have r: "r = (if P k then Some (g k) else None)"
    by auto
  from Cons.prems have "\<forall>j<length rows. rows ! j = (if P (Suc k + j) then Some (g (Suc k + j)) else None)"
    by auto
  from Cons.IH [OF this] have IH: "kept rows = map g (filter P [Suc k..<Suc k + length rows])" .
  have "k < k + length (r # rows)" by simp
  then have "[k..<k + length (r # rows)] = k # [Suc k..<k + length (r # rows)]"
    by (rule upt_conv_Cons)
  then have "[k..<k + length (r # rows)] = k # [Suc k..<Suc k + length rows]"
    by simp
  with r IH show ?case by simp
qed

lemma yahoo_row_parallel:
  assumes "q_high q = Some hs" "q_low q = Some ls" "q_close q = Some cs" "q_volume q = Some vs"
    and "i < length os" "i < length hs" "i < length ls" "i < length cs"
  shows "yahoo_row h os q (ts ! i) i =
           (if complete ts os hs ls cs i
            then (if valid_time (the (ts ! i))
                  then Inr (Some (bar_at h ts os hs ls cs vs i))
                  else Inl RangeError)
            else Inr None)"
  using assms
  by (auto simp: yahoo_row_def complete_def bar_at_def elem_at_def toISODate_def valid_time_def
           split: option.splits)

lemma yahoo_rows_parallel:
  assumes q: "q_high q = Some hs" "q_low q = Some ls" "q_close q = Some cs" "q_volume q = Some vs"
    and len: "length os = length ts" "length hs = length ts" "length ls = length ts"
             "length cs = length ts"
  shows "map_indexed (yahoo_row h os q) ts 0 =
           (if \<forall>i\<in>set (filter (complete ts os hs ls cs) [0..<length ts]). valid_time (the (ts ! i))
            then Inr (map (\<lambda>i. if complete ts os hs ls cs i
                                then Some (bar_at h ts os hs ls cs vs i) else None)
                          [0..<length ts])
            else Inl RangeError)"
proof -
  have row: "yahoo_row h os q (ts ! i) i =
           (if complete ts os hs ls cs i
            then (if valid_time (the (ts ! i))
                  then Inr (Some (bar_at h ts os hs ls cs vs i))
                  else Inl RangeError)
            else Inr None)" if "i < length ts" for i
    using that q len by (intro yahoo_row_parallel) simp_all
  show ?thesis
  proof (cases "\<forall>i\<in>set (filter (complete ts os hs ls cs) [0..<length ts]). valid_time (the (ts ! i))")
    case True
    then have "map_indexed (yahoo_row h os q) ts 0 =
       Inr (map (\<lambda>i. if complete ts os hs ls cs i
                      then Some (bar_at h ts os hs ls cs vs i) else None) [0..<length ts])"
      unfolding map_indexed_Inr_iff by (auto simp: row)
    with True show ?thesis by simp
  next
    case False
    then obtain i where i: "i < length ts" "complete ts os hs ls cs i"
      "\<not> valid_time (the (ts ! i))"
      by auto
    then have bad: "yahoo_row h os q (ts ! i) (0 + i) = Inl RangeError"
      by (simp add: row)
    show ?thesis
    proof (cases "map_indexed (yahoo_row h os q) ts 0")
      case (Inl e)
      from map_indexed_Inl [OF this] obtain j where
        "j < length ts" "yahoo_row h os q (ts ! j) (0 + j) = Inl e"
        by blast
      then have "e = RangeError"
        by (simp add: row split: if_splits)
      with Inl False show ?thesis by simp
    next
      case (Inr rows)
      then have "yahoo_row h os q (ts ! i) (0 + i) = Inr (rows ! i)"
        unfolding map_indexed_Inr_iff using i(1) by blast
      with bad show ?thesis by simp
    qed
  qed
qed

lemma kept_complete_rows:
  "kept (map (\<lambda>i. if P i then Some (g i) else None) [0..<n]) = map g (filter P [0..<n])"
  using kept_indexed [of "map (\<lambda>i. if P i then Some (g i) else None) [0..<n]" P 0 g]
  by simp

lemma yahoo_series_parallel:
  assumes shape: "first_result data = Some result" "timestamp result = Some ts"
      "indicators result = Some ind" "quote ind = Some (q # qs)" "q_open q = Some os"
    and q: "q_high q = Some hs" "q_low q = Some ls" "q_close q = Some cs" "q_volume q = Some vs"
    and len: "length os = length ts" "length hs = length ts" "length ls = length ts"
             "length cs = length ts"
  shows "yahoo_series h data =
           (if \<forall>i\<in>set (filter (complete ts os hs ls cs) [0..<length ts]). valid_time (the (ts ! i))
            then Inr (payload_of (map (bar_at h ts os hs ls cs vs)
                                      (filter (complete ts os hs ls cs) [0..<length ts])))
            else Inl RangeError)"
  using shape
  by (simp add: yahoo_series_def yahoo_rows_parallel [OF q len] kept_complete_rows)

lemma split_lines_no_newline:
  "CHR 0x0A \<notin> set r \<Longrightarrow>
   split_lines (r @ s) = (r @ hd (split_lines s)) # tl (split_lines s)"
proof (induction r)
  case Nil
  show ?case by (cases s) (simp_all split: list.splits)
next
  case (Cons c r)
  then show ?case by (auto split: list.splits)
qed

lemma split_lines_join:
  "\<forall>r\<in>set rows. CHR 0x0A \<notin> set r \<Longrightarrow>
   split_lines (join_lines rows) = (if rows = [] then [[]] else rows)"
proof (induction rows rule: join_lines.induct)
  case 1
  show ?case by simp
next
  case (2 r)
  then show ?case using split_lines_no_newline [of r "[]"] by simp
next
  case (3 r r' rs)
  then have "split_lines (r @ CHR 0x0A # join_lines (r' # rs)) = r # r' # rs"
    using split_lines_no_newline [of r "CHR 0x0A # join_lines (r' # rs)"] by simp
  then show ?case by simp
qed

lemma split_lines_csv:
  assumes "\<forall>r\<in>set rows. CHR 0x0A \<notin> set r"
  shows "split_lines (header @ join_lines rows) =
           ''Date,Open,High,Low,Close,Volume'' # (if rows = [] then [[]] else rows)"
proof -
  have "split_lines (''Date,Open,High,Low,Close,Volume'' @ CHR 0x0A # join_lines rows) =
          ''Date,Open,High,Low,Close,Volume'' # split_lines (join_lines rows)"
    using split_lines_no_newline
            [of "''Date,Open,High,Low,Close,Volume''" "CHR 0x0A # join_lines rows"]
    by simp
  with split_lines_join [OF assms] show ?thesis
    by (simp add: header_def)
qed

lemma data_rows_csv:
  assumes "\<forall>r\<in>set rows. CHR 0x0A \<notin> set r" "\<forall>r\<in>set rows. r \<noteq> []"
  shows "data_rows (header @ join_lines rows) = rows"
proof -
  have "filter (\<lambda>l. l \<noteq> []) rows = rows"
    using assms(2) by (simp add: filter_id_conv)
  then show ?thesis
    by (simp add: data_rows_def split_lines_csv [OF assms(1)])
qed

lemma bar_row_single_line:
  "single_line_host h \<Longrightarrow> CHR 0x0A \<notin> set (bar_row (make_bar h ts (isoDate h ts') a b c d v))"
  by (cases v) (simp_all add: make_bar_def single_line_host_def)

lemma bar_row_not_empty: "bar_row (make_bar h ts date a b c d v) \<noteq> []"
  by (simp add: make_bar_def)

lemma data_rows_payload:
  assumes "\<forall>b\<in>set bars. CHR 0x0A \<notin> set (bar_row b) \<and> bar_row b \<noteq> []"
  shows "data_rows (csv (payload_of bars)) = map bar_row bars"
    and "hd (split_lines (csv (payload_of bars))) = ''Date,Open,High,Low,Close,Volume''"
proof -
  have nl: "\<forall>r\<in>set (map bar_row bars). CHR 0x0A \<notin> set r"
    using assms by simp
  have ne: "\<forall>r\<in>set (map bar_row bars). r \<noteq> []"
    using assms by simp
  show "data_rows (csv (payload_of bars)) = map bar_row bars"
    using data_rows_csv [OF nl ne] by (simp add: payload_of_def)
  show "hd (split_lines (csv (payload_of bars))) = ''Date,Open,High,Low,Close,Volume''"
    using split_lines_csv [OF nl] by (simp add: payload_of_def)
qed

lemma bar_at_row:
  "single_line_host h \<Longrightarrow> CHR 0x0A \<notin> set (bar_row (bar_at h ts os hs ls cs vs i))"
  "bar_row (bar_at h ts os hs ls cs vs i) \<noteq> []"
  by (simp_all add: bar_at_def bar_row_single_line bar_row_not_empty)

text \<open>
  Claim C5. Take a payload of the primary source whose arrays \<open>timestamp\<close>, \<open>open\<close>,
  \<open>high\<close>, \<open>low\<close>, \<open>close\<close> and \<open>volume\<close> are there and have the same length, with
  \<open>null\<close> at any positions. Whenever \<open>yahoo_series\<close> returns, the candles and the
  volume points are those of the complete indices, in order: the indices at which
  the timestamp and the four prices are not \<open>null\<close>. A \<open>null\<close> volume at such an index
  becomes 0. The CSV text is the header line followed by one row per complete index;
  with host formatting functions that emit no line feed, these are exactly its data
  rows. The function returns exactly when every timestamp at a complete index is a time
  \<open>Date\<close> can represent. The witness is the scenario of the claim: three valid rows
  and one with a \<open>null\<close> close give three candles and three data rows.
\<close>

theorem yahoo_series_keeps_complete_rows:
  assumes shape: "first_result data = Some result" "timestamp result = Some ts"
      "indicators result = Some ind" "quote ind = Some (q # qs)" "q_open q = Some os"
      "q_high q = Some hs" "q_low q = Some ls" "q_close q = Some cs" "q_volume q = Some vs"
    and parallel: "length os = length ts" "length hs = length ts" "length ls = length ts"
      "length cs = length ts" "length vs = length ts"
  shows "(\<forall>payload. yahoo_series h data = Inr payload \<longrightarrow>
            candlestickData (chartData payload) =
              map (\<lambda>i. \<lparr>c_time = the (ts ! i), c_open = the (os ! i), c_high = the (hs ! i),
                         c_low = the (ls ! i), c_close = the (cs ! i)\<rparr>)
                  (complete_indices ts os hs ls cs)
          \<and> volumeData (chartData payload) =
              map (\<lambda>i. \<lparr>v_time = the (ts ! i),
                         v_value = (case vs ! i of None \<Rightarrow> 0 | Some v \<Rightarrow> v),
                         v_color = (if the (cs ! i) \<ge> the (os ! i) then up_color else down_color)\<rparr>)
                  (complete_indices ts os hs ls cs)
          \<and> csv payload =
              header @ join_lines (map (\<lambda>i. bar_row (bar_at h ts os hs ls cs vs i))
                                       (complete_indices ts os hs ls cs))
          \<and> (single_line_host h \<longrightarrow>
                hd (split_lines (csv payload)) = ''Date,Open,High,Low,Close,Volume''
              \<and> data_rows (csv payload) =
                  map (\<lambda>i. bar_row (bar_at h ts os hs ls cs vs i))
                      (complete_indices ts os hs ls cs)))
       \<and> ((\<exists>payload. yahoo_series h data = Inr payload) \<longleftrightarrow>
            (\<forall>i\<in>set (complete_indices ts os hs ls cs). valid_time (the (ts ! i))))"
proof -
  let ?K = "complete_indices ts os hs ls cs"
  let ?bars = "map (bar_at h ts os hs ls cs vs) ?K"
  have series: "yahoo_series h data =
           (if \<forall>i\<in>set ?K. valid_time (the (ts ! i)) then Inr (payload_of ?bars)
            else Inl RangeError)"
    unfolding complete_indices_def
    by (rule yahoo_series_parallel [OF shape parallel(1-4)])
  have K: "i < length vs" if "i \<in> set ?K" for i
    using that parallel(5) by (simp add: complete_indices_def)
  have candles: "map bar_candle ?bars =
              map (\<lambda>i. \<lparr>c_time = the (ts ! i), c_open = the (os ! i), c_high = the (hs ! i),
                         c_low = the (ls ! i), c_close = the (cs ! i)\<rparr>) ?K"
    by (simp add: bar_at_def make_bar_def)
  have volumes: "map bar_volume ?bars =
              map (\<lambda>i. \<lparr>v_time = the (ts ! i),
                         v_value = (case vs ! i of None \<Rightarrow> 0 | Some v \<Rightarrow> v),
                         v_color = (if the (cs ! i) \<ge> the (os ! i) then up_color else down_color)\<rparr>) ?K"
    using K by (auto simp: bar_at_def make_bar_def elem_at_def split: option.splits)
  have rows: "map bar_row ?bars = map (\<lambda>i. bar_row (bar_at h ts os hs ls cs vs i)) ?K"
    by simp
  have lines: "hd (split_lines (csv (payload_of ?bars))) = ''Date,Open,High,Low,Close,Volume''
               \<and> data_rows (csv (payload_of ?bars)) = map bar_row ?bars"
    if "single_line_host h"
    using data_rows_payload [of ?bars] that by (simp add: bar_at_row)
  have "candlestickData (chartData payload) =
              map (\<lambda>i. \<lparr>c_time = the (ts ! i), c_open = the (os ! i), c_high = the (hs ! i),
                         c_low = the (ls ! i), c_close = the (cs ! i)\<rparr>) ?K
          \<and> volumeData (chartData payload) =
              map (\<lambda>i. \<lparr>v_time = the (ts ! i),
                         v_value = (case vs ! i of None \<Rightarrow> 0 | Some v \<Rightarrow> v),
                         v_color = (if the (cs ! i) \<ge> the (os ! i) then up_color else down_color)\<rparr>) ?K
          \<and> csv payload = header @ join_lines (map (\<lambda>i. bar_row (bar_at h ts os hs ls cs vs i)) ?K)
          \<and> (single_line_host h \<longrightarrow>
                hd (split_lines (csv payload)) = ''Date,Open,High,Low,Close,Volume''
              \<and> data_rows (csv payload) = map (\<lambda>i. bar_row (bar_at h ts os hs ls cs vs i)) ?K)"
    if "yahoo_series h data = Inr payload" for payload
  proof -
    from that series have p: "payload = payload_of ?bars"
      by (simp split: if_splits)
    have "candlestickData (chartData payload) = map bar_candle ?bars"
      "volumeData (chartData payload) = map bar_volume ?bars"
      "csv payload = header @ join_lines (map bar_row ?bars)"
      by (simp_all add: p payload_of_def)
    with candles volumes rows lines p show ?thesis
      by (simp add: comp_def)
  qed
  moreover have "(\<exists>payload. yahoo_series h data = Inr payload) \<longleftrightarrow>
            (\<forall>i\<in>set ?K. valid_time (the (ts ! i)))"
    by (simp add: series)
  ultimately show ?thesis by blast
qed

lemma digit_not_newline: "n < 10 \<Longrightarrow> ''0123456789'' ! n \<noteq> CHR 0x0A"
proof -
  assume "n < 10"
  then have "''0123456789'' ! n \<in> set ''0123456789''"
    by (intro nth_mem) simp
  then show ?thesis by auto
qed

lemma show_nat_single_line: "CHR 0x0A \<notin> set (show_nat n)"
proof (induction n rule: show_nat.induct)
  case (1 n)
  show ?case
  proof (cases "n < 10")
    case True
    then show ?thesis
      using digit_not_newline [of n] by (subst show_nat.simps) simp
  next
    case False
    have "n mod 10 < 10" by simp
    from digit_not_newline [OF this] 1 False show ?thesis
      by (subst show_nat.simps) simp
  qed
qed

lemma show_int_single_line: "CHR 0x0A \<notin> set (show_int i)"
  by (simp add: show_int_def show_nat_single_line)

lemma example_toFixed2_single_line: "CHR 0x0A \<notin> set (example_toFixed2 x)"
  by (simp add: example_toFixed2_def Let_def show_nat_single_line)

lemma example_host_single_line:
  "single_line_host example_host" "single_line_host example_chart_host"
  by (simp_all add: single_line_host_def example_defs example_toFixed2_single_line
      show_int_single_line)

lemma example_ydata_shape:
  "first_result example_ydata = Some example_yresult"
  "timestamp example_yresult
     = Some [Some 1699886400, Some 1699972800, Some 1700059200, Some 1700145600]"
  "indicators example_yresult = Some \<lparr>quote = Some [example_yquote]\<rparr>"
  "quote \<lparr>quote = Some [example_yquote]\<rparr> = Some (example_yquote # [])"
  "q_open example_yquote = Some [Some 100, Some 101, Some 102, Some 103]"
  "q_high example_yquote = Some [Some 101, Some 102, Some 103, Some 104]"
  "q_low example_yquote = Some [Some 99, Some 100, Some 101, Some 102]"
  "q_close example_yquote = Some [Some (201 / 2), Some (201 / 2), None, Some (207 / 2)]"
  "q_volume example_yquote = Some [Some 1000, None, Some 3000, Some 4000]"
  by (simp_all add: first_result_def example_ydata_def example_yresult_def example_yquote_def)

lemma example_ydata_parallel:
  "length [Some 100, Some 101, Some 102, Some 103 :: rat option]
     = length [Some 1699886400, Some 1699972800, Some 1700059200, Some 1700145600 :: int option]"
  "length [Some 101, Some 102, Some 103, Some 104 :: rat option]
     = length [Some 1699886400, Some 1699972800, Some 1700059200, Some 1700145600 :: int option]"
  "length [Some 99, Some 100, Some 101, Some 102 :: rat option]
     = length [Some 1699886400, Some 1699972800, Some 1700059200, Some 1700145600 :: int option]"
  "length [Some (201 / 2), Some (201 / 2), None, Some (207 / 2) :: rat option]
     = length [Some 1699886400, Some 1699972800, Some 1700059200, Some 1700145600 :: int option]"
  "length [Some 1000, None, Some 3000, Some 4000 :: rat option]
     = length [Some 1699886400, Some 1699972800, Some 1700059200, Some 1700145600 :: int option]"
  by simp_all

lemma upt_0_4: "[0..<4] = [0, 1, 2, 3]"
  by (simp add: upt_rec)

lemma example_complete_indices:
  "complete_indices [Some 1699886400, Some 1699972800, Some 1700059200, Some 1700145600]
     [Some 100, Some 101, Some 102, Some 103] [Some 101, Some 102, Some 103, Some 104]
     [Some 99, Some 100, Some 101, Some 102]
     [Some (201 / 2), Some (201 / 2), None, Some (207 / 2)] = [0, 1, 3]"
  by (simp add: complete_indices_def complete_def upt_0_4)

lemma example_chart_series:
  "snd (fetchMarketDataFromYahoo example_chart_host ''ABC'' ''Daily'')
     = yahoo_series example_chart_host example_ydata"
proof -
  have "yahoo_chart_url example_chart_host ''ABC'' ''Daily''
          = ''https://query1.finance.yahoo.com/v8/finance/chart/ABC?range=2y&interval=1d''"
    by (simp add: yahoo_chart_url_def yahoo_range_def example_defs example_encode_def)
  then show ?thesis
    using yahooFinanceFetch_first_success [of 2 example_chart_host
            "''https://query1.finance.yahoo.com/v8/finance/chart/ABC?range=2y&interval=1d''"
            example_ydata]
      example_chart_attempts
    by (simp add: fetchMarketDataFromYahoo_result PROXIES_def less_Suc_eq numeral_2_eq_2)
qed

theorem yahoo_series_keeps_complete_rows_witness:
  "\<exists>payload. snd (fetchMarketDataFromYahoo example_chart_host ''ABC'' ''Daily'') = Inr payload
     \<and> map c_time (candlestickData (chartData payload)) = [1699886400, 1699972800, 1700145600]
     \<and> map v_value (volumeData (chartData payload)) = [1000, 0, 4000]
     \<and> length (candlestickData (chartData payload)) = 3
     \<and> length (data_rows (csv payload)) = 3"
proof -
  note t = yahoo_series_keeps_complete_rows [OF example_ydata_shape example_ydata_parallel,
             of example_chart_host,
             unfolded example_complete_indices]
  have "\<forall>i\<in>set [0, 1, 3::nat].
          valid_time (the ([Some 1699886400, Some 1699972800, Some 1700059200, Some 1700145600] ! i))"
    by (simp add: valid_time_def)
  with t obtain payload where p: "yahoo_series example_chart_host example_ydata = Inr payload"
    by auto
  note t1 = t [THEN conjunct1, THEN spec, THEN mp, OF p]
  note c = t1 [THEN conjunct1]
  note v = t1 [THEN conjunct2, THEN conjunct1]
  note r = t1 [THEN conjunct2, THEN conjunct2, THEN conjunct2, THEN mp,
               OF example_host_single_line(2), THEN conjunct2]
  from r have d: "length (data_rows (csv payload)) = 3"
    by simp
  from c v d
  have "map c_time (candlestickData (chartData payload)) = [1699886400, 1699972800, 1700145600]
     \<and> map v_value (volumeData (chartData payload)) = [1000, 0, 4000]
     \<and> length (candlestickData (chartData payload)) = 3
     \<and> length (data_rows (csv payload)) = 3"
    by simp
  with p show ?thesis
    by (simp add: example_chart_series)
qed

section \<open>Times of the returned series\<close>

lemma yahoo_row_time:
  "yahoo_row h os q ts' i = Inr (Some b) \<Longrightarrow>
   ts' = Some (c_time (bar_candle b)) \<and> v_time (bar_volume b) = c_time (bar_candle b)"
  by (auto simp: yahoo_row_def make_bar_def split: option.splits if_splits sum.splits)

lemma yahoo_row_skipped_or_kept:
  "yahoo_row h os q None i = Inr None"
  by (simp add: yahoo_row_def)

lemma yahoo_rows_times:
  "map_indexed (yahoo_row h os q) tss k = Inr rows \<Longrightarrow>
   set (map (\<lambda>b. c_time (bar_candle b)) (kept rows)) \<subseteq> set (kept tss)
   \<and> (sorted_wrt (<) (kept tss) \<longrightarrow> sorted_wrt (<) (map (\<lambda>b. c_time (bar_candle b)) (kept rows)))
   \<and> map (\<lambda>b. v_time (bar_volume b)) (kept rows) = map (\<lambda>b. c_time (bar_candle b)) (kept rows)"
proof (induction tss arbitrary: k rows)
  case Nil
  then show ?case by simp
next
  case (Cons ts' tss)
  from Cons.prems obtain r rs where
    r: "yahoo_row h os q ts' k = Inr r" and rs: "map_indexed (yahoo_row h os q) tss (Suc k) = Inr rs"
    and rows: "rows = r # rs"
    by (auto split: sum.splits)
  note IH = Cons.IH [OF rs]
  show ?case
  proof (cases r)
    case None
    show ?thesis
    proof (cases ts')
      case N: None
      with None rows IH show ?thesis by simp
    next
      case (Some t)
      with None rows IH show ?thesis by auto
    qed
  next
    case (Some b)
    with r have t: "ts' = Some (c_time (bar_candle b))"
      and v: "v_time (bar_volume b) = c_time (bar_candle b)"
      using yahoo_row_time by blast+
    with Some rows IH show ?thesis by auto
  qed
qed

lemma finnhub_row_time:
  "finnhub_row h data ts i = Inr b \<Longrightarrow>
   c_time (bar_candle b) = ts \<and> v_time (bar_volume b) = ts"
  by (auto simp: finnhub_row_def make_bar_def split: option.splits sum.splits)

lemma finnhub_rows_times:
  "map_indexed (finnhub_row h data) t k = Inr bars \<Longrightarrow>
   map (\<lambda>b. c_time (bar_candle b)) bars = t \<and> map (\<lambda>b. v_time (bar_volume b)) bars = t"
proof (induction t arbitrary: k bars)
  case Nil
  then show ?case by simp
next
  case (Cons ts t)
  from Cons.prems obtain b bs where
    b: "finnhub_row h data ts k = Inr b" and bs: "map_indexed (finnhub_row h data) t (Suc k) = Inr bs"
    and bars: "bars = b # bs"
    by (auto split: sum.splits)
  from Cons.IH [OF bs] finnhub_row_time [OF b] bars show ?case by simp
qed

lemma relay_loop_Inr:
  "snd (relay_loop h url ps le) = Inr data \<Longrightarrow> \<exists>p\<in>set ps. yahoo_attempt h p url = Inr data"
proof (induction ps arbitrary: le)
  case Nil
  then show ?case by simp
next
  case (Cons p ps)
  show ?case
  proof (cases "yahoo_attempt h p url")
    case (Inl e)
    with Cons.prems have "snd (relay_loop h url ps (Some (caught e))) = Inr data"
      by (simp add: case_prod_beta)
    from Cons.IH [OF this] show ?thesis by auto
  next
    case (Inr d)
    with Cons.prems show ?thesis by simp
  qed
qed

lemma yahoo_series_times:
  assumes "yahoo_series h data = Inr payload"
  shows "\<exists>result ts. first_result data = Some result \<and> timestamp result = Some ts
          \<and> (sorted_wrt (<) (kept ts) \<longrightarrow>
               sorted_wrt (<) (map c_time (candlestickData (chartData payload))))
          \<and> map v_time (volumeData (chartData payload))
              = map c_time (candlestickData (chartData payload))"
proof -
  from assms obtain result ts ind q qs os rows where
    shape: "first_result data = Some result" "timestamp result = Some ts"
    and rows: "map_indexed (yahoo_row h os q) ts 0 = Inr rows"
    and p: "payload = payload_of (kept rows)"
    by (auto simp: yahoo_series_def split: option.splits list.splits sum.splits)
  from yahoo_rows_times [OF rows] p shape show ?thesis
    by (simp add: payload_of_def comp_def)
qed

lemma finnhub_series_times:
  assumes "finnhub_series h symbol data = Inr payload"
  shows "\<exists>t. f_t data = Some t
          \<and> map c_time (candlestickData (chartData payload)) = t
          \<and> map v_time (volumeData (chartData payload)) = t"
proof -
  from assms obtain t bars where
    t: "f_t data = Some t" and bars: "map_indexed (finnhub_row h data) t 0 = Inr bars"
    and p: "payload = payload_of bars"
    by (auto simp: finnhub_series_def split: option.splits if_splits sum.splits)
  from finnhub_rows_times [OF bars] t p show ?thesis
    by (simp add: payload_of_def comp_def)
qed

lemma fetchMarketDataFromYahoo_Inr:
  assumes "snd (fetchMarketDataFromYahoo h symbol timeframe) = Inr payload"
  shows "\<exists>url response data. settles (fetch_yahoo h url) = Inr response
           \<and> body response = Json data \<and> yahoo_series h data = Inr payload"
proof -
  from assms obtain data where
    d: "snd (yahooFinanceFetch h (yahoo_chart_url h symbol timeframe)) = Inr data"
    and s: "yahoo_series h data = Inr payload"
    by (auto simp: fetchMarketDataFromYahoo_result split: sum.splits)
  from d obtain p where "yahoo_attempt h p (yahoo_chart_url h symbol timeframe) = Inr data"
    unfolding yahooFinanceFetch_def using relay_loop_Inr by blast
  then obtain response where
    "settles (fetch_yahoo h (fetchUrl_of h p (yahoo_chart_url h symbol timeframe))) = Inr response"
    "body response = Json data"
    unfolding yahoo_attempt_valid by blast
  with s show ?thesis by blast
qed

lemma fetchMarketDataFromFinnhub_Inr:
  assumes "snd (fetchMarketDataFromFinnhub key h symbol timeframe) = Inr payload"
  shows "\<exists>url response data. settles (fetch_candle h url) = Inr response
           \<and> body response = Json data \<and> finnhub_series h symbol data = Inr payload"
  using assms
  by (auto simp: fetchMarketDataFromFinnhub_def fetch_plain_def
           split: if_splits sum.splits body.splits)

text \<open>
  Claim C6. Let the upstream data be ascending. Whenever \<open>fetchMarketData\<close> returns a
  payload, from either provider, the candle times increase strictly, there are as many
  volume points as candles, and the times of the volume points are those of the
  candles, element for element.
\<close>

theorem series_times_ascending_and_aligned:
  assumes "ascending_upstream h"
    and "snd (fetchMarketData key h symbol timeframe) = Inr payload"
  shows "sorted_wrt (<) (map c_time (candlestickData (chartData payload)))
       \<and> length (volumeData (chartData payload)) = length (candlestickData (chartData payload))
       \<and> map v_time (volumeData (chartData payload))
           = map c_time (candlestickData (chartData payload))"
proof -
  have aligned: "length (volumeData (chartData payload)) = length (candlestickData (chartData payload))"
    if "map v_time (volumeData (chartData payload)) = map c_time (candlestickData (chartData payload))"
    using that by (rule map_eq_imp_length_eq)
  from assms(2) consider
    (primary) "snd (fetchMarketDataFromYahoo h symbol timeframe) = Inr payload"
  | (fallback) "snd (fetchMarketDataFromFinnhub key h symbol timeframe) = Inr payload"
    by (auto simp: fetchMarketData_unfold split: sum.splits if_splits)
  then show ?thesis
  proof cases
    case primary
    from fetchMarketDataFromYahoo_Inr [OF this] obtain url response data where
      up: "settles (fetch_yahoo h url) = Inr response" "body response = Json data"
      and s: "yahoo_series h data = Inr payload"
      by blast
    from yahoo_series_times [OF s] obtain result ts where
      r: "first_result data = Some result" "timestamp result = Some ts"
      and sorted: "sorted_wrt (<) (kept ts) \<longrightarrow>
               sorted_wrt (<) (map c_time (candlestickData (chartData payload)))"
      and eq: "map v_time (volumeData (chartData payload))
              = map c_time (candlestickData (chartData payload))"
      by blast
    from assms(1) up r have "sorted_wrt (<) (kept ts)"
      unfolding ascending_upstream_def by blast
    with sorted eq aligned show ?thesis by simp
  next
    case fallback
    from fetchMarketDataFromFinnhub_Inr [OF this] obtain url response data where
      up: "settles (fetch_candle h url) = Inr response" "body response = Json data"
      and s: "finnhub_series h symbol data = Inr payload"
      by blast
    from finnhub_series_times [OF s] obtain t where
      t: "f_t data = Some t"
      and eq: "map c_time (candlestickData (chartData payload)) = t"
        "map v_time (volumeData (chartData payload)) = t"
      by blast
    from assms(1) up t have "sorted_wrt (<) t"
      unfolding ascending_upstream_def by blast
    with eq aligned show ?thesis by simp
  qed
qed

lemma example_chart_host_ascending: "ascending_upstream example_chart_host"
  unfolding ascending_upstream_def
proof (intro conjI allI impI)
  fix url response data result ts
  assume a: "settles (fetch_yahoo example_chart_host url) = Inr response \<and> body response = Json data
         \<and> first_result data = Some result \<and> timestamp result = Some ts"
  then have "data = example_ydata"
    by (auto simp: example_defs split: if_splits)
  with a have "ts = [Some 1699886400, Some 1699972800, Some 1700059200, Some 1700145600]"
    by (auto simp: example_ydata_shape)
  then show "sorted_wrt (<) (kept ts)" by simp
next
  fix url response data t
  assume "settles (fetch_candle example_chart_host url) = Inr response \<and> body response = Json data
         \<and> f_t data = Some t"
  then show "sorted_wrt (<) t"
    by (simp add: example_defs)
qed

lemma example_fallback_host_ascending: "ascending_upstream example_fallback_host"
  unfolding ascending_upstream_def
proof (intro conjI allI impI)
  fix url response data result ts
  assume "settles (fetch_yahoo example_fallback_host url) = Inr response \<and> body response = Json data
         \<and> first_result data = Some result \<and> timestamp result = Some ts"
  then show "sorted_wrt (<) (kept ts)"
    by (simp add: example_defs)
next
  fix url response data t
  assume a: "settles (fetch_candle example_fallback_host url) = Inr response \<and> body response = Json data
         \<and> f_t data = Some t"
  then have "data = example_fcandles"
    by (auto simp: example_defs)
  with a have "t = [1699886400, 1699972800, 1700059200]"
    by (simp add: example_fcandles_def)
  then show "sorted_wrt (<) t" by simp
qed

lemma example_chart_host_fetch:
  "snd (fetchMarketData FINNHUB_API_KEY example_chart_host ''ABC'' ''Daily'')
     = yahoo_series example_chart_host example_ydata"
  "\<not> isl (yahoo_series example_chart_host example_ydata)"
proof -
  note t = yahoo_series_parallel [OF example_ydata_shape example_ydata_parallel(1-4),
             of example_chart_host, folded complete_indices_def, unfolded example_complete_indices]
  then show ok: "\<not> isl (yahoo_series example_chart_host example_ydata)"
    by (simp add: valid_time_def)
  then show "snd (fetchMarketData FINNHUB_API_KEY example_chart_host ''ABC'' ''Daily'')
     = yahoo_series example_chart_host example_ydata"
    by (cases "yahoo_series example_chart_host example_ydata")
       (simp_all add: fetchMarketData_unfold example_chart_series)
qed

theorem series_times_ascending_and_aligned_witness:
  "(\<exists>payload. snd (fetchMarketData FINNHUB_API_KEY example_chart_host ''ABC'' ''Daily'') = Inr payload
      \<and> sorted_wrt (<) (map c_time (candlestickData (chartData payload)))
      \<and> map v_time (volumeData (chartData payload)) = map c_time (candlestickData (chartData payload)))
   \<and> sorted_wrt (<) (map c_time (candlestickData (chartData example_fallback_payload)))
   \<and> map v_time (volumeData (chartData example_fallback_payload))
       = map c_time (candlestickData (chartData example_fallback_payload))"
proof -
  obtain payload where
    p: "snd (fetchMarketData FINNHUB_API_KEY example_chart_host ''ABC'' ''Daily'') = Inr payload"
    using example_chart_host_fetch
    by (cases "yahoo_series example_chart_host example_ydata") auto
  from series_times_ascending_and_aligned [OF example_chart_host_ascending p]
  have a: "sorted_wrt (<) (map c_time (candlestickData (chartData payload)))
      \<and> map v_time (volumeData (chartData payload)) = map c_time (candlestickData (chartData payload))"
    by blast
  have q: "snd (fetchMarketData FINNHUB_API_KEY example_fallback_host ''ABC'' ''Daily'')
             = Inr example_fallback_payload"
    by (simp add: fetchMarketData_unfold example_fallback_host_yahoo_series
        FINNHUB_API_KEY_configured example_fallback_host_series example_fallback_series)
  from series_times_ascending_and_aligned [OF example_fallback_host_ascending q]
  have "sorted_wrt (<) (map c_time (candlestickData (chartData example_fallback_payload)))
   \<and> map v_time (volumeData (chartData example_fallback_payload))
       = map c_time (candlestickData (chartData example_fallback_payload))"
    by blast
  with a p show ?thesis by blast
qed

section \<open>The series of the fallback source\<close>

lemma finnhub_row_cells:
  assumes "finnhub_row h data ts i = Inr b"
  shows "\<exists>os hs ls cs vs.
           f_o data = Some os \<and> f_h data = Some hs \<and> f_l data = Some ls \<and> f_c data = Some cs
           \<and> f_v data = Some vs
           \<and> elem_at os i = Num (c_open (bar_candle b)) \<and> elem_at hs i = Num (c_high (bar_candle b))
           \<and> elem_at ls i = Num (c_low (bar_candle b)) \<and> elem_at cs i = Num (c_close (bar_candle b))
           \<and> v_value (bar_volume b) = volume_or_zero (elem_at vs i)"
proof -
  have num: "cell_num c = Inr x \<Longrightarrow> c = Num x" for c x
    by (cases c) simp_all
  from assms show ?thesis
    by (auto simp: finnhub_row_def make_bar_def dest!: num split: option.splits sum.splits)
qed

text \<open>
  Claim C10, as amended. The fallback's series path filters nothing: whenever
  \<open>finnhub_series\<close> returns, the candles and the volume points follow the upstream
  timestamp array element for element, every open, high, low and close is the number
  at that index of its array, and a \<open>null\<close> volume has become 0. A \<open>null\<close> open, high,
  low or close at an index of the timestamp array is neither dropped nor passed
  through: the call throws.
\<close>

theorem finnhub_series_no_null_rows:
  "f_t data = Some t \<longrightarrow>
     (finnhub_series h symbol data = Inr payload \<longrightarrow>
        map c_time (candlestickData (chartData payload)) = t
      \<and> map v_time (volumeData (chartData payload)) = t
      \<and> (\<exists>os hs ls cs vs.
            f_o data = Some os \<and> f_h data = Some hs \<and> f_l data = Some ls \<and> f_c data = Some cs
            \<and> f_v data = Some vs
            \<and> (\<forall>i<length t.
                  elem_at os i = Num (c_open (candlestickData (chartData payload) ! i))
                \<and> elem_at hs i = Num (c_high (candlestickData (chartData payload) ! i))
                \<and> elem_at ls i = Num (c_low (candlestickData (chartData payload) ! i))
                \<and> elem_at cs i = Num (c_close (candlestickData (chartData payload) ! i))
                \<and> v_value (volumeData (chartData payload) ! i) = volume_or_zero (elem_at vs i))))
   \<and> (j < length t \<and> (\<exists>xs. (f_o data = Some xs \<or> f_h data = Some xs \<or> f_l data = Some xs
                               \<or> f_c data = Some xs) \<and> elem_at xs j = Null)
       \<longrightarrow> isl (finnhub_series h symbol data))"
proof (intro impI)
  assume t: "f_t data = Some t"
  have main: "map c_time (candlestickData (chartData p)) = t
      \<and> map v_time (volumeData (chartData p)) = t
      \<and> (\<exists>os hs ls cs vs.
            f_o data = Some os \<and> f_h data = Some hs \<and> f_l data = Some ls \<and> f_c data = Some cs
            \<and> f_v data = Some vs
            \<and> (\<forall>i<length t.
                  elem_at os i = Num (c_open (candlestickData (chartData p) ! i))
                \<and> elem_at hs i = Num (c_high (candlestickData (chartData p) ! i))
                \<and> elem_at ls i = Num (c_low (candlestickData (chartData p) ! i))
                \<and> elem_at cs i = Num (c_close (candlestickData (chartData p) ! i))
                \<and> v_value (volumeData (chartData p) ! i) = volume_or_zero (elem_at vs i)))"
    if s: "finnhub_series h symbol data = Inr p" for p
  proof -
    from s t obtain bars where
      bars: "map_indexed (finnhub_row h data) t 0 = Inr bars" and p: "p = payload_of bars"
      and ne: "t \<noteq> []"
      by (auto simp: finnhub_series_def split: if_splits sum.splits)
    from bars have len: "length bars = length t"
      and row: "\<forall>i<length t. finnhub_row h data (t ! i) (0 + i) = Inr (bars ! i)"
      unfolding map_indexed_Inr_iff by blast+
    from ne have "0 < length t" by simp
    with row have "finnhub_row h data (t ! 0) 0 = Inr (bars ! 0)" by fastforce
    from finnhub_row_cells [OF this] obtain os hs ls cs vs where
      arrays: "f_o data = Some os" "f_h data = Some hs" "f_l data = Some ls" "f_c data = Some cs"
        "f_v data = Some vs"
      by blast
    have cells: "elem_at os i = Num (c_open (bar_candle (bars ! i)))
                \<and> elem_at hs i = Num (c_high (bar_candle (bars ! i)))
                \<and> elem_at ls i = Num (c_low (bar_candle (bars ! i)))
                \<and> elem_at cs i = Num (c_close (bar_candle (bars ! i)))
                \<and> v_value (bar_volume (bars ! i)) = volume_or_zero (elem_at vs i)"
      if "i < length t" for i
    proof -
      from row that have "finnhub_row h data (t ! i) i = Inr (bars ! i)" by fastforce
      from finnhub_row_cells [OF this] arrays show ?thesis by simp
    qed
    from finnhub_rows_times [OF bars] p have times:
      "map c_time (candlestickData (chartData p)) = t" "map v_time (volumeData (chartData p)) = t"
      by (simp_all add: payload_of_def comp_def)
    from cells len p have "\<forall>i<length t.
                  elem_at os i = Num (c_open (candlestickData (chartData p) ! i))
                \<and> elem_at hs i = Num (c_high (candlestickData (chartData p) ! i))
                \<and> elem_at ls i = Num (c_low (candlestickData (chartData p) ! i))
                \<and> elem_at cs i = Num (c_close (candlestickData (chartData p) ! i))
                \<and> v_value (volumeData (chartData p) ! i) = volume_or_zero (elem_at vs i)"
      by (simp add: payload_of_def)
    with times arrays show ?thesis by blast
  qed
  have null: "isl (finnhub_series h symbol data)"
    if j: "j < length t \<and> (\<exists>xs. (f_o data = Some xs \<or> f_h data = Some xs \<or> f_l data = Some xs
                               \<or> f_c data = Some xs) \<and> elem_at xs j = Null)"
  proof (cases "finnhub_series h symbol data")
    case (Inl e)
    then show ?thesis by simp
  next
    case (Inr p)
    from main [OF this] j have False by auto
    then show ?thesis ..
  qed
  from main null show "(finnhub_series h symbol data = Inr payload \<longrightarrow>
        map c_time (candlestickData (chartData payload)) = t
      \<and> map v_time (volumeData (chartData payload)) = t
      \<and> (\<exists>os hs ls cs vs.
            f_o data = Some os \<and> f_h data = Some hs \<and> f_l data = Some ls \<and> f_c data = Some cs
            \<and> f_v data = Some vs
            \<and> (\<forall>i<length t.
                  elem_at os i = Num (c_open (candlestickData (chartData payload) ! i))
                \<and> elem_at hs i = Num (c_high (candlestickData (chartData payload) ! i))
                \<and> elem_at ls i = Num (c_low (candlestickData (chartData payload) ! i))
                \<and> elem_at cs i = Num (c_close (candlestickData (chartData payload) ! i))
                \<and> v_value (volumeData (chartData payload) ! i) = volume_or_zero (elem_at vs i))))
   \<and> (j < length t \<and> (\<exists>xs. (f_o data = Some xs \<or> f_h data = Some xs \<or> f_l data = Some xs
                               \<or> f_c data = Some xs) \<and> elem_at xs j = Null)
       \<longrightarrow> isl (finnhub_series h symbol data))"
    by blast
qed

theorem finnhub_series_no_null_rows_witness:
  "map c_time (candlestickData (chartData example_fallback_payload))
     = [1699886400, 1699972800, 1700059200]
   \<and> map v_time (volumeData (chartData example_fallback_payload))
     = [1699886400, 1699972800, 1700059200]
   \<and> isl (finnhub_series example_null_close_host ''ABC''
            (example_fcandles\<lparr>f_c := Some [Some (201 / 2), None, Some (205 / 2)]\<rparr>))"
proof -
  have t: "f_t example_fcandles = Some [1699886400, 1699972800, 1700059200]"
    by (simp add: example_fcandles_def)
  from finnhub_series_no_null_rows
         [of example_fcandles "[1699886400, 1699972800, 1700059200]" example_fallback_host
             "''ABC''" example_fallback_payload]
       t example_fallback_series
  have a: "map c_time (candlestickData (chartData example_fallback_payload))
     = [1699886400, 1699972800, 1700059200]
   \<and> map v_time (volumeData (chartData example_fallback_payload))
     = [1699886400, 1699972800, 1700059200]"
    by blast
  let ?d = "example_fcandles\<lparr>f_c := Some [Some (201 / 2), None, Some (205 / 2)]\<rparr>"
  have t': "f_t ?d = Some [1699886400, 1699972800, 1700059200]"
    by (simp add: example_fcandles_def)
  have n: "(1::nat) < length [1699886400, 1699972800, 1700059200 :: int]
         \<and> (\<exists>xs. (f_o ?d = Some xs \<or> f_h ?d = Some xs \<or> f_l ?d = Some xs \<or> f_c ?d = Some xs)
                 \<and> elem_at xs 1 = Null)"
    by (intro conjI exI [of _ "[Some (201 / 2), None, Some (205 / 2)]"])
       (simp_all add: elem_at_def)
  from finnhub_series_no_null_rows
         [of ?d "[1699886400, 1699972800, 1700059200]" example_null_close_host "''ABC''" _ 1]
       t' n
  have "isl (finnhub_series example_null_close_host ''ABC'' ?d)"
    by blast
  with a show ?thesis by blast
qed

text \<open>
  Claim C10 as stated fails: for a payload with status 200, three timestamps and a
  \<open>null\<close> close in the second row, \<open>fetchMarketDataFromFinnhub\<close> returns no series at
  all. It throws the \<open>TypeError\<close> of \<open>toFixed\<close> on \<open>null\<close>.
\<close>

theorem finnhub_null_close_throws:
  "snd (fetchMarketDataFromFinnhub FINNHUB_API_KEY example_null_close_host ''ABC'' ''Daily'')
     = Inl TypeError"
  by (simp add: fetchMarketDataFromFinnhub_def FINNHUB_API_KEY_def endsWith_def fetch_plain_def
      response_ok_def example_defs finnhub_series_def example_fcandles_def finnhub_row_def
      toISODate_def elem_at_def)

section \<open>The live-price monitor\<close>

lemma fetchLivePrice_returns: "\<exists>price. snd (fetchLivePrice key h symbol) = Inr price"
proof (cases "symbol = []")
  case True
  then show ?thesis by (simp add: fetchLivePrice_def)
next
  case False
  then show ?thesis by (simp add: fetchLivePrice_unfold split: sum.splits)
qed

lemma tick_polling:
  assumes "polling symbol s"
  shows "\<exists>newPrice. snd (fetchLivePrice key h symbol) = Inr newPrice
           \<and> tick key h s = on_quote newPrice s"
proof -
  from assms obtain ident where
    s: "priceUpdateInterval s = Some ident" "timers s = [(ident, symbol)]" "pending s = []"
    by (auto simp: polling_def split: option.splits)
  obtain newPrice where p: "snd (fetchLivePrice key h symbol) = Inr newPrice"
    using fetchLivePrice_returns by blast
  from s have same: "s\<lparr>pending := []\<rparr> = s" by simp
  from s p have "tick key h s = on_quote newPrice (s\<lparr>pending := []\<rparr>)"
    by (simp add: tick_def timer_fires_def quote_settles_def)
  with same have "tick key h s = on_quote newPrice s"
    by simp
  with p show ?thesis by blast
qed

lemma quote_ok_iff:
  "snd (fetchLivePrice key h symbol) = Inr newPrice \<Longrightarrow>
   quote_ok key h symbol \<longleftrightarrow> newPrice \<noteq> None \<and> newPrice \<noteq> Some []"
  by (auto simp: quote_ok_def split: option.splits)

lemma tick_success:
  assumes "polling symbol s" "quote_ok key h symbol"
  shows "pollingFailureCount (tick key h s) = 0"
    and "snd (fetchLivePrice key h symbol) = Inr (livePrice (tick key h s))"
    and "polling symbol (tick key h s)"
    and "halts (tick key h s) = halts s"
    and "isPollingHalted (tick key h s) = isPollingHalted s"
proof -
  from tick_polling [OF assms(1)] obtain newPrice where
    p: "snd (fetchLivePrice key h symbol) = Inr newPrice" and t: "tick key h s = on_quote newPrice s"
    by blast
  from p assms(2) have ok: "newPrice \<noteq> None \<and> newPrice \<noteq> Some []"
    by (simp add: quote_ok_iff)
  then have t': "tick key h s = s\<lparr>livePrice := newPrice, pollingFailureCount := 0\<rparr>"
    by (simp add: t on_quote_def)
  show "pollingFailureCount (tick key h s) = 0" by (simp add: t')
  show "snd (fetchLivePrice key h symbol) = Inr (livePrice (tick key h s))" by (simp add: t' p)
  show "polling symbol (tick key h s)"
    using assms(1) by (simp add: t' polling_def split: option.splits)
  show "halts (tick key h s) = halts s" by (simp add: t')
  show "isPollingHalted (tick key h s) = isPollingHalted s" by (simp add: t')
qed

lemma tick_failure:
  assumes "polling symbol s" "\<not> quote_ok key h symbol" "pollingFailureCount s < 4"
  shows "pollingFailureCount (tick key h s) = pollingFailureCount s + 1"
    and "polling symbol (tick key h s)"
    and "halts (tick key h s) = halts s"
    and "livePrice (tick key h s) = livePrice s"
    and "isPollingHalted (tick key h s) = isPollingHalted s"
proof -
  from tick_polling [OF assms(1)] obtain newPrice where
    p: "snd (fetchLivePrice key h symbol) = Inr newPrice" and t: "tick key h s = on_quote newPrice s"
    by blast
  from p assms(2) have "\<not> (newPrice \<noteq> None \<and> newPrice \<noteq> Some [])"
    by (simp add: quote_ok_iff)
  with assms(3) have t': "tick key h s = s\<lparr>pollingFailureCount := pollingFailureCount s + 1\<rparr>"
    by (auto simp: t on_quote_def Let_def)
  show "pollingFailureCount (tick key h s) = pollingFailureCount s + 1" by (simp add: t')
  show "polling symbol (tick key h s)"
    using assms(1,3) by (simp add: t' polling_def split: option.splits)
  show "halts (tick key h s) = halts s" by (simp add: t')
  show "livePrice (tick key h s) = livePrice s" by (simp add: t')
  show "isPollingHalted (tick key h s) = isPollingHalted s" by (simp add: t')
qed

lemma tick_fifth_failure:
  assumes "polling symbol s" "\<not> quote_ok key h symbol" "pollingFailureCount s = 4"
  shows "stopped (tick key h s)"
    and "isPollingHalted (tick key h s)"
    and "halts (tick key h s) = halts s + 1"
    and "pollingFailureCount (tick key h s) = 0"
proof -
  from tick_polling [OF assms(1)] obtain newPrice where
    p: "snd (fetchLivePrice key h symbol) = Inr newPrice" and t: "tick key h s = on_quote newPrice s"
    by blast
  from assms(1) obtain ident where
    s: "priceUpdateInterval s = Some ident" "ident \<noteq> 0" "timers s = [(ident, symbol)]"
       "pending s = []"
    by (auto simp: polling_def split: option.splits)
  from p assms(2) have "\<not> (newPrice \<noteq> None \<and> newPrice \<noteq> Some [])"
    by (simp add: quote_ok_iff)
  with assms(3) s have t': "tick key h s =
      s\<lparr>pollingFailureCount := 0, timers := [], priceUpdateInterval := None,
        isPollingHalted := True, halts := halts s + 1\<rparr>"
    by (auto simp: t on_quote_def Let_def stopPolling_def clearInterval_def)
  show "stopped (tick key h s)" using s by (simp add: t' stopped_def)
  show "isPollingHalted (tick key h s)" by (simp add: t')
  show "halts (tick key h s) = halts s + 1" by (simp add: t')
  show "pollingFailureCount (tick key h s) = 0" by (simp add: t')
qed

lemma tick_stopped: "stopped s \<Longrightarrow> tick key h s = s"
  by (simp add: tick_def stopped_def)

lemma poll_stopped: "stopped s \<Longrightarrow> poll key hs s = s"
  by (induction hs) (simp_all add: tick_stopped)

lemma poll_append: "poll key (hs @ hs') s = poll key hs' (poll key hs s)"
  by (induction hs arbitrary: s) simp_all

lemma poll_failures:
  assumes "\<forall>h\<in>set hs. \<not> quote_ok key h symbol"
    and "polling symbol s" "pollingFailureCount s + length hs < 5"
  shows "polling symbol (poll key hs s)
       \<and> pollingFailureCount (poll key hs s) = pollingFailureCount s + length hs
       \<and> halts (poll key hs s) = halts s
       \<and> livePrice (poll key hs s) = livePrice s
       \<and> isPollingHalted (poll key hs s) = isPollingHalted s"
  using assms
proof (induction hs arbitrary: s)
  case Nil
  then show ?case by simp
next
  case (Cons h hs)
  from Cons.prems have h: "\<not> quote_ok key h symbol" and c: "pollingFailureCount s < 4"
    by simp_all
  note f = tick_failure [OF Cons.prems(2) h c]
  from Cons.prems f have "pollingFailureCount (tick key h s) + length hs < 5"
    by simp
  from Cons.IH [OF _ f(2) this] Cons.prems(1) f show ?case
    by simp
qed

lemma poll_five_failures:
  assumes "polling symbol s" "pollingFailureCount s = 0" "length fails = 5"
    and "\<forall>h\<in>set fails. \<not> quote_ok key h symbol"
  shows "stopped (poll key (fails @ later) s)
       \<and> isPollingHalted (poll key (fails @ later) s)
       \<and> halts (poll key (fails @ later) s) = halts s + 1
       \<and> pollingFailureCount (poll key (fails @ later) s) = 0"
proof -
  from assms(3) obtain hs h where fails: "fails = hs @ [h]" and len: "length hs = 4"
    by (cases fails rule: rev_cases) auto
  from assms(4) fails have hs: "\<forall>h\<in>set hs. \<not> quote_ok key h symbol"
    and h: "\<not> quote_ok key h symbol"
    by simp_all
  from poll_failures [OF hs assms(1)] assms(2) len have
    four: "polling symbol (poll key hs s)" "pollingFailureCount (poll key hs s) = 4"
      "halts (poll key hs s) = halts s"
    by simp_all
  note fifth = tick_fifth_failure [OF four(1) h four(2)]
  have "poll key (fails @ later) s = poll key later (tick key h (poll key hs s))"
    by (simp add: fails poll_append)
  also have "\<dots> = tick key h (poll key hs s)"
    by (rule poll_stopped [OF fifth(1)])
  finally show ?thesis
    using fifth four(3) by simp
qed

lemma session_starts_polling:
  assumes "symbol \<noteq> []" "stopped s \<and> pollingFailureCount s = 0 \<or> polling symbol' s"
  shows "polling symbol (handleAnalysisRequest_resume (Some symbol) (handleAnalysisRequest_begin s))"
    and "pollingFailureCount
           (handleAnalysisRequest_resume (Some symbol) (handleAnalysisRequest_begin s)) = 0"
    and "\<not> isPollingHalted
           (handleAnalysisRequest_resume (Some symbol) (handleAnalysisRequest_begin s))"
    and "halts (handleAnalysisRequest_resume (Some symbol) (handleAnalysisRequest_begin s)) = halts s"
  using assms
  by (auto simp: handleAnalysisRequest_resume_def handleAnalysisRequest_begin_def stopPolling_def
        clearInterval_def polling_def stopped_def split: option.splits)

lemma on_quote_halts:
  "halts (on_quote newPrice s) = halts s
     \<and> priceUpdateInterval (on_quote newPrice s) = priceUpdateInterval s
   \<or> halts (on_quote newPrice s) = halts s + 1
     \<and> priceUpdateInterval (on_quote newPrice s) = None"
  by (simp add: on_quote_def stopPolling_def Let_def split: option.splits)

lemma app_step_halts:
  "halts (app_step key ev s) = halts s
     \<and> priceUpdateInterval (app_step key ev s) = priceUpdateInterval s
   \<or> halts (app_step key ev s) = halts s + 1
     \<and> priceUpdateInterval (app_step key ev s) = None"
proof (cases ev)
  case (Fires ident)
  then show ?thesis
    by (simp add: timer_fires_def split: option.splits)
next
  case (Settles h)
  show ?thesis
  proof (cases "pending s")
    case Nil
    with Settles show ?thesis by (simp add: quote_settles_def)
  next
    case (Cons symbol rest)
    show ?thesis
    proof (cases "snd (fetchLivePrice key h symbol)")
      case (Inl e)
      with Settles Cons show ?thesis by (simp add: quote_settles_def)
    next
      case (Inr newPrice)
      with Settles Cons on_quote_halts [of newPrice "s\<lparr>pending := rest\<rparr>"]
      show ?thesis by (simp add: quote_settles_def)
    qed
  qed
qed

lemma on_quote_no_ref:
  "priceUpdateInterval s = None \<Longrightarrow>
   halts (on_quote newPrice s) = halts s \<and> priceUpdateInterval (on_quote newPrice s) = None"
  by (simp add: on_quote_def stopPolling_def Let_def)

lemma app_step_no_ref:
  assumes "priceUpdateInterval s = None"
  shows "halts (app_step key ev s) = halts s \<and> priceUpdateInterval (app_step key ev s) = None"
proof (cases ev)
  case (Fires ident)
  with assms show ?thesis
    by (simp add: timer_fires_def split: option.splits)
next
  case (Settles h)
  show ?thesis
  proof (cases "pending s")
    case Nil
    with Settles assms show ?thesis by (simp add: quote_settles_def)
  next
    case (Cons symbol rest)
    show ?thesis
    proof (cases "snd (fetchLivePrice key h symbol)")
      case (Inl e)
      with Settles Cons assms show ?thesis by (simp add: quote_settles_def)
    next
      case (Inr newPrice)
      with Settles Cons assms on_quote_no_ref [of "s\<lparr>pending := rest\<rparr>" newPrice]
      show ?thesis by (simp add: quote_settles_def)
    qed
  qed
qed

lemma app_run_no_ref:
  "priceUpdateInterval s = None \<Longrightarrow> halts (app_run key evs s) = halts s"
proof (induction evs arbitrary: s)
  case Nil
  show ?case by simp
next
  case (Cons ev evs)
  from app_step_no_ref [OF Cons.prems, of key ev] Cons.IH [of "app_step key ev s"]
  show ?case by simp
qed

lemma app_run_halts_once: "halts (app_run key evs s) \<le> halts s + 1"
proof (induction evs arbitrary: s)
  case Nil
  show ?case by simp
next
  case (Cons ev evs)
  from app_step_halts [of key ev s] show ?case
  proof
    assume "halts (app_step key ev s) = halts s
            \<and> priceUpdateInterval (app_step key ev s) = priceUpdateInterval s"
    with Cons.IH [of "app_step key ev s"] show ?thesis by simp
  next
    assume "halts (app_step key ev s) = halts s + 1
            \<and> priceUpdateInterval (app_step key ev s) = None"
    with app_run_no_ref [of "app_step key ev s" key evs] show ?thesis by simp
  qed
qed

text \<open>
  A session at rest: it polls \<open>symbol\<close>, nothing is outstanding and fewer than five
  failures are counted. For ticks whose request settles before the next one: a price
  resets \<open>pollingFailureCount\<close> to 0 and becomes \<open>livePrice\<close>; a failed quote below the
  fifth adds one to the counter; the fifth consecutive failure cancels the timer, clears
  the ref and calls \<open>setIsPollingHalted(true)\<close> once, and no tick occurs afterwards. A
  request with a non-empty symbol starts such a session when the state before it is at
  rest too. In any order of firings and settlements, no run makes the call more than
  once. The state is not always at rest, as the last section shows.
\<close>

lemma session_at_rest_halts_after_five_failures:
  "(polling symbol s \<and> quote_ok key h symbol \<longrightarrow>
      pollingFailureCount (tick key h s) = 0
    \<and> snd (fetchLivePrice key h symbol) = Inr (livePrice (tick key h s))
    \<and> polling symbol (tick key h s) \<and> halts (tick key h s) = halts s)
   \<and> (polling symbol s \<and> \<not> quote_ok key h symbol \<and> pollingFailureCount s < 4 \<longrightarrow>
      pollingFailureCount (tick key h s) = pollingFailureCount s + 1
    \<and> polling symbol (tick key h s) \<and> halts (tick key h s) = halts s
    \<and> livePrice (tick key h s) = livePrice s)
   \<and> (polling symbol s \<and> \<not> quote_ok key h symbol \<and> pollingFailureCount s = 4 \<longrightarrow>
      stopped (tick key h s) \<and> isPollingHalted (tick key h s)
    \<and> halts (tick key h s) = halts s + 1
    \<and> poll key later (tick key h s) = tick key h s)
   \<and> (polling symbol s \<and> pollingFailureCount s = 0 \<and> length fails = 5
       \<and> (\<forall>h\<in>set fails. \<not> quote_ok key h symbol) \<longrightarrow>
      stopped (poll key (fails @ later) s) \<and> isPollingHalted (poll key (fails @ later) s)
    \<and> halts (poll key (fails @ later) s) = halts s + 1
    \<and> (\<forall>n<5. polling symbol (poll key (take n fails) s)
              \<and> pollingFailureCount (poll key (take n fails) s) = n
              \<and> halts (poll key (take n fails) s) = halts s))
   \<and> (symbol \<noteq> [] \<and> (stopped s0 \<and> pollingFailureCount s0 = 0 \<or> polling symbol' s0) \<longrightarrow>
      polling symbol (handleAnalysisRequest_resume (Some symbol) (handleAnalysisRequest_begin s0))
    \<and> pollingFailureCount
        (handleAnalysisRequest_resume (Some symbol) (handleAnalysisRequest_begin s0)) = 0
    \<and> \<not> isPollingHalted
        (handleAnalysisRequest_resume (Some symbol) (handleAnalysisRequest_begin s0)))
   \<and> halts (app_run key evs s) \<le> halts s + 1"
proof (intro conjI impI)
  show "halts (app_run key evs s) \<le> halts s + 1"
    by (rule app_run_halts_once)
next
  assume a: "polling symbol s \<and> quote_ok key h symbol"
  then have p: "polling symbol s" and q: "quote_ok key h symbol" by simp_all
  show "pollingFailureCount (tick key h s) = 0"
    "snd (fetchLivePrice key h symbol) = Inr (livePrice (tick key h s))"
    "polling symbol (tick key h s)" "halts (tick key h s) = halts s"
    by (rule tick_success [OF p q])+
next
  assume a: "polling symbol s \<and> \<not> quote_ok key h symbol \<and> pollingFailureCount s < 4"
  then have p: "polling symbol s" and q: "\<not> quote_ok key h symbol"
    and c: "pollingFailureCount s < 4" by simp_all
  show "pollingFailureCount (tick key h s) = pollingFailureCount s + 1"
    "polling symbol (tick key h s)" "halts (tick key h s) = halts s"
    "livePrice (tick key h s) = livePrice s"
    by (rule tick_failure [OF p q c])+
next
  assume a: "polling symbol s \<and> \<not> quote_ok key h symbol \<and> pollingFailureCount s = 4"
  then have p: "polling symbol s" and q: "\<not> quote_ok key h symbol"
    and c: "pollingFailureCount s = 4" by simp_all
  show st: "stopped (tick key h s)" "isPollingHalted (tick key h s)"
    "halts (tick key h s) = halts s + 1"
    by (rule tick_fifth_failure [OF p q c])+
  show "poll key later (tick key h s) = tick key h s"
    by (rule poll_stopped [OF st(1)])
next
  assume a: "polling symbol s \<and> pollingFailureCount s = 0 \<and> length fails = 5
       \<and> (\<forall>h\<in>set fails. \<not> quote_ok key h symbol)"
  then have p: "polling symbol s" and c: "pollingFailureCount s = 0" and l: "length fails = 5"
    and f: "\<forall>h\<in>set fails. \<not> quote_ok key h symbol" by simp_all
  from poll_five_failures [OF p c l f, of later]
  show "stopped (poll key (fails @ later) s)" "isPollingHalted (poll key (fails @ later) s)"
    "halts (poll key (fails @ later) s) = halts s + 1"
    by simp_all
  show "\<forall>n<5. polling symbol (poll key (take n fails) s)
              \<and> pollingFailureCount (poll key (take n fails) s) = n
              \<and> halts (poll key (take n fails) s) = halts s"
  proof (intro allI impI)
    fix n :: nat
    assume n: "n < 5"
    from f have "\<forall>h\<in>set (take n fails). \<not> quote_ok key h symbol"
      by (meson in_set_takeD)
    from poll_failures [OF this p] c l n
    show "polling symbol (poll key (take n fails) s)
              \<and> pollingFailureCount (poll key (take n fails) s) = n
              \<and> halts (poll key (take n fails) s) = halts s"
      by simp
  qed
next
  assume a: "symbol \<noteq> [] \<and> (stopped s0 \<and> pollingFailureCount s0 = 0 \<or> polling symbol' s0)"
  then have n: "symbol \<noteq> []" and s: "stopped s0 \<and> pollingFailureCount s0 = 0 \<or> polling symbol' s0"
    by simp_all
  show "polling symbol (handleAnalysisRequest_resume (Some symbol) (handleAnalysisRequest_begin s0))"
    "pollingFailureCount
        (handleAnalysisRequest_resume (Some symbol) (handleAnalysisRequest_begin s0)) = 0"
    "\<not> isPollingHalted
        (handleAnalysisRequest_resume (Some symbol) (handleAnalysisRequest_begin s0))"
    by (rule session_starts_polling [OF n s])+
qed

lemma example_host_quote:
  "snd (fetchLivePrice FINNHUB_API_KEY example_host ''ABC'') = Inr None"
  by (simp add: fetchLivePrice_unfold example_host_yahoo_quote example_host_finnhub_quote)

lemma example_host_quote_fails: "\<not> quote_ok FINNHUB_API_KEY example_host ''ABC''"
  by (simp add: quote_ok_def example_host_quote)

lemma show_nat_digit: "n < 10 \<Longrightarrow> show_nat n = [''0123456789'' ! n]"
  by (subst show_nat.simps) simp

lemma show_nat_step:
  "10 \<le> n \<Longrightarrow> show_nat n = show_nat (n div 10) @ [''0123456789'' ! (n mod 10)]"
  by (subst show_nat.simps) simp

lemma example_price_rounded: "nat \<lfloor>\<bar>207 / 2 :: rat\<bar> * 100 + 1 / 2\<rfloor> = 10350"
proof -
  have "\<lfloor>20701 / 2 :: rat\<rfloor> = 10350"
    by (rule floor_unique) simp_all
  then show ?thesis by simp
qed

lemma example_toFixed2_price: "example_toFixed2 (207 / 2) = ''103.50''"
  unfolding example_toFixed2_def Let_def example_price_rounded
  by (simp add: show_nat_digit show_nat_step)

lemma example_quote_host_quote:
  "snd (fetchLivePrice FINNHUB_API_KEY example_quote_host ''ABC'') = Inr (Some ''103.50'')"
proof -
  let ?url = "''https://query1.finance.yahoo.com/v8/finance/chart/ABC?range=1d&interval=1m''"
  have url: "yahoo_quote_url example_quote_host ''ABC'' = ?url"
    by (simp add: yahoo_quote_url_def example_defs example_encode_def)
  have "yahoo_attempt example_quote_host (PROXIES ! 0) ?url = Inr example_ydata"
    by (simp add: yahoo_attempt_def PROXIES_def fetchUrl_of_def example_defs
        fetch_with_signal_def response_ok_def example_ydata_def)
  then have "snd (yahooFinanceFetch example_quote_host ?url) = Inr example_ydata"
    using yahooFinanceFetch_first_success [of 0 example_quote_host ?url example_ydata]
    by (simp add: PROXIES_def)
  moreover have "yahoo_price example_ydata = PNum (207 / 2)"
    by (simp add: yahoo_price_def example_ydata_shape example_yresult_def)
  moreover have "toFixed2 example_quote_host = example_toFixed2"
    by (simp add: example_defs)
  ultimately have "snd (fetchLivePriceFromYahoo example_quote_host ''ABC'') = Inr (Some ''103.50'')"
    by (simp add: fetchLivePriceFromYahoo_result url example_toFixed2_price)
  then show ?thesis
    by (simp add: fetchLivePrice_unfold)
qed

lemma example_quote_host_quote_ok: "quote_ok FINNHUB_API_KEY example_quote_host ''ABC''"
  by (simp add: quote_ok_def example_quote_host_quote)

lemma App_init_stopped: "stopped App_init \<and> pollingFailureCount App_init = 0"
  by (simp add: stopped_def App_init_def)

lemma session_at_rest_example:
  "polling ''ABC'' (handleAnalysisRequest_resume (Some ''ABC'') (handleAnalysisRequest_begin App_init))
   \<and> stopped (poll FINNHUB_API_KEY (replicate 5 example_host @ replicate 2 example_host)
        (handleAnalysisRequest_resume (Some ''ABC'') (handleAnalysisRequest_begin App_init)))
   \<and> isPollingHalted (poll FINNHUB_API_KEY (replicate 5 example_host @ replicate 2 example_host)
        (handleAnalysisRequest_resume (Some ''ABC'') (handleAnalysisRequest_begin App_init)))
   \<and> halts (poll FINNHUB_API_KEY (replicate 5 example_host @ replicate 2 example_host)
        (handleAnalysisRequest_resume (Some ''ABC'') (handleAnalysisRequest_begin App_init))) = 1
   \<and> livePrice (tick FINNHUB_API_KEY example_quote_host
        (handleAnalysisRequest_resume (Some ''ABC'') (handleAnalysisRequest_begin App_init)))
       = Some ''103.50''
   \<and> pollingFailureCount (tick FINNHUB_API_KEY example_quote_host
        (poll FINNHUB_API_KEY (replicate 4 example_host)
          (handleAnalysisRequest_resume (Some ''ABC'') (handleAnalysisRequest_begin App_init)))) = 0"
proof -
  let ?s = "handleAnalysisRequest_resume (Some ''ABC'') (handleAnalysisRequest_begin App_init)"
  note t = session_at_rest_halts_after_five_failures
  have n: "''ABC'' \<noteq> [] \<and> (stopped App_init \<and> pollingFailureCount App_init = 0
                          \<or> polling ''ABC'' App_init)"
    using App_init_stopped by simp
  from t [of "''ABC''" _ _ _ _ _ App_init "''ABC''"] n
  have p: "polling ''ABC'' ?s" and c: "pollingFailureCount ?s = 0"
    by blast+
  have h0: "halts ?s = 0"
    by (simp add: handleAnalysisRequest_resume_def handleAnalysisRequest_begin_def
        stopPolling_def App_init_def)
  have f: "polling ''ABC'' ?s \<and> pollingFailureCount ?s = 0 \<and> length (replicate 5 example_host) = 5
       \<and> (\<forall>h\<in>set (replicate 5 example_host). \<not> quote_ok FINNHUB_API_KEY h ''ABC'')"
    using p c example_host_quote_fails by simp
  note five = t [of "''ABC''" ?s FINNHUB_API_KEY _ "replicate 2 example_host"
                    "replicate 5 example_host", THEN conjunct2, THEN conjunct2, THEN conjunct2,
                 THEN conjunct1, THEN mp, OF f]
  from five h0 have halted:
    "stopped (poll FINNHUB_API_KEY (replicate 5 example_host @ replicate 2 example_host) ?s)"
    "isPollingHalted (poll FINNHUB_API_KEY (replicate 5 example_host @ replicate 2 example_host) ?s)"
    "halts (poll FINNHUB_API_KEY (replicate 5 example_host @ replicate 2 example_host) ?s) = 1"
    by simp_all
  from five have four: "polling ''ABC'' (poll FINNHUB_API_KEY (take 4 (replicate 5 example_host)) ?s)"
    by simp
  have tk: "take 4 (replicate 5 example_host) = replicate 4 example_host"
    by simp
  have ok: "polling ''ABC'' ?s \<and> quote_ok FINNHUB_API_KEY example_quote_host ''ABC''"
    using p example_quote_host_quote_ok by simp
  from t [of "''ABC''" ?s FINNHUB_API_KEY example_quote_host, THEN conjunct1, THEN mp, OF ok]
  have "livePrice (tick FINNHUB_API_KEY example_quote_host ?s) = Some ''103.50''"
    by (simp add: example_quote_host_quote)
  moreover
  have ok': "polling ''ABC'' (poll FINNHUB_API_KEY (replicate 4 example_host) ?s)
             \<and> quote_ok FINNHUB_API_KEY example_quote_host ''ABC''"
    using four tk example_quote_host_quote_ok by simp
  from t [of "''ABC''" "poll FINNHUB_API_KEY (replicate 4 example_host) ?s" FINNHUB_API_KEY
             example_quote_host, THEN conjunct1, THEN mp, OF ok']
  have "pollingFailureCount (tick FINNHUB_API_KEY example_quote_host
          (poll FINNHUB_API_KEY (replicate 4 example_host) ?s)) = 0"
    by simp
  ultimately show ?thesis
    using p halted by simp
qed

subsection \<open>Requests in flight\<close>

lemma timer_fires_registered:
  "map_of (timers s) ident = Some symbol \<Longrightarrow>
   timer_fires ident s = s\<lparr>pending := pending s @ [symbol]\<rparr>"
  by (simp add: timer_fires_def)

lemma fires_repeatedly:
  "map_of (timers s) ident = Some symbol \<Longrightarrow>
   pending (app_run key (replicate n (Fires ident)) s) = pending s @ replicate n symbol
   \<and> timers (app_run key (replicate n (Fires ident)) s) = timers s"
proof (induction n arbitrary: s)
  case 0
  show ?case by simp
next
  case (Suc n)
  let ?s = "timer_fires ident s"
  from Suc.prems have s': "?s = s\<lparr>pending := pending s @ [symbol]\<rparr>"
    by (rule timer_fires_registered)
  with Suc.prems have "map_of (timers ?s) ident = Some symbol" by simp
  from Suc.IH [OF this] s' show ?case
    by (simp add: replicate_app_Cons_same)
qed

lemma quote_settles_pending:
  "length (pending (quote_settles key h s)) = length (pending s) - 1"
proof (cases "pending s")
  case Nil
  then show ?thesis by (simp add: quote_settles_def)
next
  case (Cons symbol rest)
  have "pending (on_quote newPrice s') = pending s'" for newPrice s'
    by (simp add: on_quote_def stopPolling_def Let_def split: option.splits)
  with Cons show ?thesis
    by (simp add: quote_settles_def split: sum.splits)
qed

lemma tick_leaves_nothing_pending:
  assumes "polling symbol s"
  shows "pending (tick key h s) = []"
proof -
  from tick_polling [OF assms] obtain newPrice where
    t: "tick key h s = on_quote newPrice s"
    by blast
  have "pending (on_quote newPrice s) = pending s"
    by (simp add: on_quote_def stopPolling_def Let_def split: option.splits)
  with t assms show ?thesis
    by (simp add: polling_def split: option.splits)
qed

text \<open>
  Claim C9, as amended. The timer callback has no guard against an outstanding request:
  every firing of a registered timer adds a request, so \<open>n\<close> firings with nothing
  settled in between leave \<open>n\<close> more requests in flight. A request leaves only by
  settling, one at a time. When each request settles before the next tick, as in
  \<open>tick\<close>, nothing is outstanding between two ticks.
\<close>

theorem timer_fires_without_guard:
  "(map_of (timers s) ident = Some symbol \<longrightarrow>
      pending (timer_fires ident s) = pending s @ [symbol]
    \<and> length (pending (app_run key (replicate n (Fires ident)) s)) = length (pending s) + n)
   \<and> length (pending (quote_settles key h s)) = length (pending s) - 1
   \<and> (polling symbol s \<longrightarrow> pending s = [] \<and> pending (tick key h s) = [])"
proof (intro conjI impI)
  assume a: "map_of (timers s) ident = Some symbol"
  then show "pending (timer_fires ident s) = pending s @ [symbol]"
    by (simp add: timer_fires_registered)
  from fires_repeatedly [OF a]
  show "length (pending (app_run key (replicate n (Fires ident)) s)) = length (pending s) + n"
    by simp
next
  show "length (pending (quote_settles key h s)) = length (pending s) - 1"
    by (rule quote_settles_pending)
next
  assume p: "polling symbol s"
  then show "pending s = []"
    by (simp add: polling_def split: option.splits)
  from p show "pending (tick key h s) = []"
    by (rule tick_leaves_nothing_pending)
qed

lemma example_session:
  "handleAnalysisRequest_resume (Some ''ABC'') (handleAnalysisRequest_begin App_init)
     = App_init\<lparr>priceUpdateInterval := Some 1, timers := [(1, ''ABC'')], timers_created := 1\<rparr>"
  by (simp add: handleAnalysisRequest_resume_def handleAnalysisRequest_begin_def stopPolling_def
      App_init_def)

theorem timer_fires_without_guard_witness:
  "length (pending (app_run FINNHUB_API_KEY (replicate 3 (Fires 1))
     (handleAnalysisRequest_resume (Some ''ABC'') (handleAnalysisRequest_begin App_init)))) = 3"
proof -
  let ?s = "handleAnalysisRequest_resume (Some ''ABC'') (handleAnalysisRequest_begin App_init)"
  have r: "map_of (timers ?s) 1 = Some ''ABC''" and e: "pending ?s = []"
    unfolding example_session by (simp_all add: App_init_def)
  from timer_fires_without_guard [of ?s 1 "''ABC''" FINNHUB_API_KEY 3] r e
  show ?thesis by simp
qed

text \<open>
  Claim C9 as stated fails: when the timer of a session fires twice before the first
  quote has arrived, two requests are in flight.
\<close>

theorem two_quote_requests_in_flight:
  "pending (app_run FINNHUB_API_KEY [Fires 1, Fires 1]
     (handleAnalysisRequest_resume (Some ''ABC'') (handleAnalysisRequest_begin App_init)))
   = [''ABC'', ''ABC'']"
  unfolding example_session by (simp add: timer_fires_def App_init_def)

subsection \<open>Failures that arrive late\<close>

lemma example_late_failures_state:
  "example_late_failures
   = App_init\<lparr>pollingFailureCount := 5, isPollingHalted := True, timers_created := 1,
              halts := 1\<rparr>"
  unfolding example_late_failures_def example_session
  by (simp add: App_init_def timer_fires_def quote_settles_def on_quote_def stopPolling_def
      clearInterval_def example_host_quote eval_nat_numeral)

lemma example_next_session_state:
  "example_next_session
   = App_init\<lparr>pollingFailureCount := 5, priceUpdateInterval := Some 2,
              timers := [(2, ''ABC'')], timers_created := 2, halts := 1\<rparr>"
  unfolding example_next_session_def example_late_failures_state
  by (simp add: handleAnalysisRequest_resume_def handleAnalysisRequest_begin_def stopPolling_def
      App_init_def)

text \<open>
  Claim C1 fails on the code. \<open>stopPolling\<close> resets \<open>pollingFailureCount\<close> only inside the
  guard on the interval ref. When the timer has fired ten times before any quote
  arrives and all ten quotes fail, the fifth failure halts the session and resets the
  counter, and the five failures after it, the ref being \<open>null\<close> by then, take the
  counter back to 5. The \<open>stopPolling()\<close> of the next analysis request does nothing, the
  new session starts with the counter at 5, and its first failed quote halts it: one
  failure, not five consecutive ones as the claim and the code's own comment say.
\<close>

theorem first_failure_halts_next_session:
  "pollingFailureCount example_late_failures = 5
   \<and> priceUpdateInterval example_late_failures = None
   \<and> halts example_late_failures = 1
   \<and> pollingFailureCount (handleAnalysisRequest_begin example_late_failures) = 5
   \<and> pollingFailureCount example_next_session = 5
   \<and> priceUpdateInterval example_next_session = Some 2
   \<and> \<not> isPollingHalted example_next_session
   \<and> snd (fetchLivePrice FINNHUB_API_KEY example_host ''ABC'') = Inr None
   \<and> isPollingHalted (tick FINNHUB_API_KEY example_host example_next_session)
   \<and> priceUpdateInterval (tick FINNHUB_API_KEY example_host example_next_session) = None
   \<and> timers (tick FINNHUB_API_KEY example_host example_next_session) = []
   \<and> halts (tick FINNHUB_API_KEY example_host example_next_session) = 2"
proof -
  have a: "pollingFailureCount example_late_failures = 5
   \<and> priceUpdateInterval example_late_failures = None
   \<and> halts example_late_failures = 1
   \<and> pollingFailureCount (handleAnalysisRequest_begin example_late_failures) = 5"
    unfolding example_late_failures_state
    by (simp add: App_init_def handleAnalysisRequest_begin_def stopPolling_def)
  have b: "pollingFailureCount example_next_session = 5
   \<and> priceUpdateInterval example_next_session = Some 2
   \<and> \<not> isPollingHalted example_next_session"
    unfolding example_next_session_state by (simp add: App_init_def)
  have c: "isPollingHalted (tick FINNHUB_API_KEY example_host example_next_session)
   \<and> priceUpdateInterval (tick FINNHUB_API_KEY example_host example_next_session) = None
   \<and> timers (tick FINNHUB_API_KEY example_host example_next_session) = []
   \<and> halts (tick FINNHUB_API_KEY example_host example_next_session) = 2"
    unfolding example_next_session_state
    by (simp add: App_init_def tick_def timer_fires_def quote_settles_def on_quote_def
        stopPolling_def clearInterval_def example_host_quote)
  from a b c example_host_quote show ?thesis by blast
qed

end
